theory Spec2Isabelle
  imports Complex_Main "HOL-Library.Sublist" "HOL-Library.Log_Nat"
begin

section \<open>The product cart component (productCartService.js)\<close>

text \<open>
  The component is a class whose fields are mutated by event handlers. The embedding keeps
  the fields in a record, and every handler is a function from the state before the call
  to the state after it. What a handler sends out of the component (toast events, the
  refresh event, the navigation request, the Apex call) is appended to the field
  \<open>effects\<close>; the timers it starts are appended to \<open>timers\<close>.
\<close>

subsection \<open>JavaScript numbers\<close>

text \<open>
  Quantities, prices, totals and the countdown are JavaScript numbers: IEEE 754 doubles.
  A number is \<open>NaN\<close>, \<open>Infinity\<close>, \<open>-Infinity\<close>, \<open>-0\<close> or a finite value \<open>Num r\<close>, the
  double whose value is the rational \<open>r\<close> (\<open>Num 0\<close> is \<open>+0\<close>). The arithmetic operators
  compute the exact result on the rationals and round it to the nearest double, as the
  standard defines them. \<open>null\<close> and \<open>undefined\<close> are the \<open>None\<close> of an option type, field
  by field as noted. The page number and the image index, which the handlers move by one
  inside the bounds of an array, are integers.
\<close>

datatype jsnum = NaN | PosInf | NegInf | NegZero | Num rat

text \<open>\<open>2\<close> to an integer power.\<close>

definition pow2 :: "int \<Rightarrow> rat" where
  "pow2 k = (if 0 \<le> k then 2 ^ nat k else 1 / 2 ^ nat (- k))"

text \<open>Rounding to the nearest integer, a tie to the even one.\<close>

definition roundHalfEven :: "rat \<Rightarrow> int" where
  "roundHalfEven x =
     (let f = \<lfloor>x\<rfloor>; d = x - of_int f
      in if d < 1 / 2 then f else if 1 / 2 < d then f + 1 else if even f then f else f + 1)"

text \<open>
  The binary exponent of a positive rational \<open>x = p / q\<close>: the \<open>e\<close> with
  \<open>2 ^ e \<le> x < 2 ^ (e + 1)\<close>. With \<open>d\<close> the difference of the bit lengths of \<open>p\<close> and
  \<open>q\<close> it is \<open>d\<close> or \<open>d - 1\<close>.
\<close>

definition floorLog2 :: "rat \<Rightarrow> int" where
  "floorLog2 x =
     (let d = bitlen (fst (quotient_of x)) - bitlen (snd (quotient_of x))
      in if pow2 d \<le> x then d else d - 1)"

text \<open>
  The double nearest to a positive rational (round to nearest, ties to even). A double
  has 53 significant bits, so with binary exponent \<open>e\<close> its unit in the last place is
  \<open>2 ^ (e - 52)\<close>; below the least normal exponent \<open>-1022\<close> the unit stays \<open>2 ^ -1074\<close>
  (subnormal numbers, down to zero). The result overflows to \<open>Infinity\<close> when it reaches
  \<open>2 ^ 1024\<close>: the exponent is above 1023, or it is 1023 and the significand rounds up
  to \<open>2 ^ 53\<close>.
\<close>

definition roundPositive :: "rat \<Rightarrow> jsnum" where
  "roundPositive x =
     (let e = max (floorLog2 x) (- 1022);
          ulp = pow2 (e - 52);
          n = roundHalfEven (x / ulp)
      in if 1023 < e \<or> (e = 1023 \<and> 2 ^ 53 \<le> n) then PosInf
         else Num (of_int n * ulp))"

fun js_neg :: "jsnum \<Rightarrow> jsnum" where
  "js_neg NaN = NaN"
| "js_neg PosInf = NegInf"
| "js_neg NegInf = PosInf"
| "js_neg NegZero = Num 0"
| "js_neg (Num a) = (if a = 0 then NegZero else Num (- a))"

text \<open>The double nearest to a rational; a negative value that rounds to zero is \<open>-0\<close>.\<close>

definition toDouble :: "rat \<Rightarrow> jsnum" where
  "toDouble x =
     (if x = 0 then Num 0
      else if 0 < x then roundPositive x
      else js_neg (roundPositive (- x)))"

text \<open>The sign bit and the magnitude (\<open>None\<close> for an infinity) of a number that is not \<open>NaN\<close>.\<close>

fun isNegative :: "jsnum \<Rightarrow> bool" where
  "isNegative NegInf = True"
| "isNegative NegZero = True"
| "isNegative (Num a) = (a < 0)"
| "isNegative _ = False"

fun magnitude :: "jsnum \<Rightarrow> rat option" where
  "magnitude (Num a) = Some \<bar>a\<bar>"
| "magnitude NegZero = Some 0"
| "magnitude _ = None"

text \<open>
  Addition: \<open>NaN\<close> is contagious, \<open>Infinity + -Infinity\<close> is \<open>NaN\<close>, \<open>-0 + -0\<close> is \<open>-0\<close>,
  and an exact sum \<open>0\<close> is \<open>+0\<close>; otherwise the exact sum is rounded.
\<close>

fun js_add :: "jsnum \<Rightarrow> jsnum \<Rightarrow> jsnum" where
  "js_add NaN _ = NaN"
| "js_add _ NaN = NaN"
| "js_add PosInf NegInf = NaN"
| "js_add NegInf PosInf = NaN"
| "js_add PosInf _ = PosInf"
| "js_add _ PosInf = PosInf"
| "js_add NegInf _ = NegInf"
| "js_add _ NegInf = NegInf"
| "js_add NegZero NegZero = NegZero"
| "js_add NegZero (Num b) = Num b"
| "js_add (Num a) NegZero = Num a"
| "js_add (Num a) (Num b) = toDouble (a + b)"

definition js_sub :: "jsnum \<Rightarrow> jsnum \<Rightarrow> jsnum" where
  "js_sub a b = js_add a (js_neg b)"

text \<open>
  Multiplication and division: the sign of the result is the exclusive or of the signs,
  also for zeros and infinities; \<open>0 * Infinity\<close>, \<open>0 / 0\<close> and \<open>Infinity / Infinity\<close> are
  \<open>NaN\<close>; otherwise the exact product or quotient of the magnitudes is rounded.
\<close>

definition js_mul :: "jsnum \<Rightarrow> jsnum \<Rightarrow> jsnum" where
  "js_mul a b =
     (if a = NaN \<or> b = NaN then NaN
      else
        let r = (case (magnitude a, magnitude b) of
                   (None, None) \<Rightarrow> PosInf
                 | (None, Some n) \<Rightarrow> if n = 0 then NaN else PosInf
                 | (Some m, None) \<Rightarrow> if m = 0 then NaN else PosInf
                 | (Some m, Some n) \<Rightarrow> toDouble (m * n))
        in if isNegative a \<noteq> isNegative b then js_neg r else r)"

definition js_div :: "jsnum \<Rightarrow> jsnum \<Rightarrow> jsnum" where
  "js_div a b =
     (if a = NaN \<or> b = NaN then NaN
      else
        let r = (case (magnitude a, magnitude b) of
                   (None, None) \<Rightarrow> NaN
                 | (None, Some n) \<Rightarrow> PosInf
                 | (Some m, None) \<Rightarrow> Num 0
                 | (Some m, Some n) \<Rightarrow>
                     if n = 0 then (if m = 0 then NaN else PosInf) else toDouble (m / n))
        in if isNegative a \<noteq> isNegative b then js_neg r else r)"

text \<open>
  Comparisons: \<open>-Infinity\<close> is below and \<open>Infinity\<close> above every finite number, \<open>-0\<close> and
  \<open>0\<close> are equal, and every comparison with \<open>NaN\<close> is false.
\<close>

fun orderKey :: "jsnum \<Rightarrow> (int \<times> rat) option" where
  "orderKey NaN = None"
| "orderKey NegInf = Some (- 1, 0)"
| "orderKey PosInf = Some (1, 0)"
| "orderKey NegZero = Some (0, 0)"
| "orderKey (Num a) = Some (0, a)"

definition js_le :: "jsnum \<Rightarrow> jsnum \<Rightarrow> bool" where
  "js_le a b =
     (case (orderKey a, orderKey b) of
        (Some (i, x), Some (j, y)) \<Rightarrow> i < j \<or> (i = j \<and> x \<le> y)
      | _ \<Rightarrow> False)"

definition js_lt :: "jsnum \<Rightarrow> jsnum \<Rightarrow> bool" where
  "js_lt a b =
     (case (orderKey a, orderKey b) of
        (Some (i, x), Some (j, y)) \<Rightarrow> i < j \<or> (i = j \<and> x < y)
      | _ \<Rightarrow> False)"

definition js_eq :: "jsnum \<Rightarrow> jsnum \<Rightarrow> bool" where
  "js_eq a b = (orderKey a \<noteq> None \<and> orderKey a = orderKey b)"

text \<open>Truthiness of a number: \<open>0\<close>, \<open>-0\<close> and \<open>NaN\<close> are falsy.\<close>

fun truthy :: "jsnum \<Rightarrow> bool" where
  "truthy NaN = False"
| "truthy NegZero = False"
| "truthy (Num a) = (a \<noteq> 0)"
| "truthy _ = True"

text \<open>\<open>ToNumber\<close> of a value that may be \<open>undefined\<close>: \<open>undefined\<close> becomes \<open>NaN\<close>.\<close>

fun undefToNumber :: "jsnum option \<Rightarrow> jsnum" where
  "undefToNumber None = NaN"
| "undefToNumber (Some n) = n"

text \<open>The test \<open>!qty || qty <= 0\<close> of the add handlers, on a number.\<close>

definition invalidQty :: "jsnum \<Rightarrow> bool" where
  "invalidQty q = (\<not> truthy q \<or> js_le q (Num 0))"

text \<open>The remainder operator \<open>%\<close> on integers: the sign follows the dividend.\<close>

definition js_rem :: "int \<Rightarrow> int \<Rightarrow> int" where
  "js_rem a b = (if a < 0 then - ((- a) mod \<bar>b\<bar>) else a mod \<bar>b\<bar>)"

subsection \<open>JavaScript strings and arrays\<close>

text \<open>
  Strings are lists of characters. \<open>toLowerCase\<close> is modelled on the ASCII letters,
  \<open>trim\<close> on the ASCII white space.
\<close>

definition toLowerChar :: "char \<Rightarrow> char" where
  "toLowerChar c =
     (let n = (of_char c :: nat) in if 65 \<le> n \<and> n \<le> 90 then char_of (n + 32) else c)"

definition toLowerCase :: "string \<Rightarrow> string" where
  "toLowerCase s = map toLowerChar s"

definition isWhiteSpace :: "char \<Rightarrow> bool" where
  "isWhiteSpace c = ((of_char c :: nat) \<in> {9, 10, 11, 12, 13, 32})"

definition trim :: "string \<Rightarrow> string" where
  "trim s = rev (dropWhile isWhiteSpace (rev (dropWhile isWhiteSpace s)))"

text \<open>\<open>s.includes(t)\<close>: \<open>t\<close> occurs in \<open>s\<close> as a contiguous run of characters.\<close>

definition js_includes :: "string \<Rightarrow> string \<Rightarrow> bool" where
  "js_includes s t = sublist t s"

text \<open>\<open>Array.prototype.findIndex\<close>: the first index whose element passes, \<open>None\<close> for \<open>-1\<close>.\<close>

fun findIndex :: "('a \<Rightarrow> bool) \<Rightarrow> 'a list \<Rightarrow> nat option" where
  "findIndex P [] = None"
| "findIndex P (x # xs) = (if P x then Some 0 else map_option Suc (findIndex P xs))"

text \<open>
  \<open>Array.prototype.slice(start, end)\<close>: a negative bound counts from the end of the array,
  both bounds are clamped to the array, and an empty range gives the empty array.
\<close>

definition js_slice :: "'a list \<Rightarrow> int \<Rightarrow> int \<Rightarrow> 'a list" where
  "js_slice xs start fin =
     (let len = int (length xs);
          k = (if start < 0 then max (len + start) 0 else min start len);
          final = (if fin < 0 then max (len + fin) 0 else min fin len)
      in take (nat (final - k)) (drop (nat k) xs))"

subsection \<open>Data\<close>

text \<open>
  A product as the Apex call returns it, with the transient \<open>qty\<close> that \<open>loadProducts\<close>
  adds (\<open>None\<close> is \<open>null\<close>). \<open>Brand\<close>, \<open>ProductFamily\<close>, \<open>Category\<close> and \<open>imageUrls\<close>
  may be absent.
\<close>

record product =
  productId :: string
  name :: string
  productCode :: string
  unitPrice :: jsnum
  Brand :: "string option"
  ProductFamily :: "string option"
  Category :: "string option"
  imageUrls :: "string list option"
  qty :: "jsnum option"

text \<open>
  The object held in \<open>selectedProduct\<close>: the empty object \<open>{}\<close> while the modal is closed,
  so every field that the handlers read may be \<open>undefined\<close> (\<open>None\<close>). The display-only
  fields that \<open>handleViewDetails\<close> sets to constants (\<open>description\<close>, \<open>mrp\<close>, \<open>discount\<close>,
  \<open>savingAmount\<close>, \<open>maxPrice\<close>) are read by no handler and are left out.
\<close>

record selected =
  sel_productId :: "string option"
  sel_name :: "string option"
  sel_unitPrice :: "jsnum option"
  sel_imageUrls :: "string list option"
  sel_brand :: "string option"
  sel_category :: "string option"
  sel_availableUnits :: "int option"

definition emptyObject :: selected where
  "emptyObject = \<lparr> sel_productId = None, sel_name = None, sel_unitPrice = None,
     sel_imageUrls = None, sel_brand = None, sel_category = None,
     sel_availableUnits = None \<rparr>"

text \<open>
  A cart line. \<open>addDetailsModalToCart\<close> copies \<open>productId\<close>, \<open>name\<close> and \<open>unitPrice\<close> from
  \<open>selectedProduct\<close>, so these three may be \<open>undefined\<close> (\<open>None\<close>).
\<close>

record cart_line =
  line_productId :: "string option"
  line_name :: "string option"
  line_qty :: jsnum
  price :: "jsnum option"
  total :: jsnum

record order_line =
  Product2Id :: "string option"
  Quantity :: jsnum
  UnitPrice :: "jsnum option"

datatype cart_mode = EDIT | SUMMARY

datatype effect =
    Toast string string string
  | RefreshEvent
  | Navigate string
  | AddProducts string "order_line list"

datatype timer_task =
    StartImageScrollLater
  | NextImageTick
  | ResumeImageScrollLater
  | CountdownTick
  | CloseSummaryLater

text \<open>
  The fields of the component that the modelled handlers read or write. The price book
  list, its search term and the loading flag belong to handlers that are not modelled.
  \<open>timers\<close> holds the timers started and not cleared, each with the handle that
  \<open>setInterval\<close> or \<open>setTimeout\<close> returned; \<open>nextTimerId\<close> is the next handle.
\<close>

record state =
  recordId :: string
  selectedPricebookId :: "string option"
  countdown :: jsnum
  progressWidth :: jsnum
  products :: "product list"
  filteredProducts :: "product list"
  cart :: "cart_line list"
  showDetailsModal :: bool
  selectedProduct :: selected
  selectedProductQty :: jsnum
  selectedImageIndex :: int
  imageScrollInterval :: "nat option"
  isImageGalleryHovered :: bool
  productSearchTerm :: string
  selectedCategory :: string
  currentPage :: int
  productsPerPage :: nat
  showCartModal :: bool
  cartMode :: cart_mode
  orderStatus :: "string option"
  effects :: "effect list"
  timers :: "(nat \<times> timer_task) list"
  nextTimerId :: nat

text \<open>The field initialisers of the class.\<close>

definition initial :: "string \<Rightarrow> state" where
  "initial rid = \<lparr> recordId = rid, selectedPricebookId = None, countdown = Num 3,
     progressWidth = Num 100, products = [], filteredProducts = [], cart = [],
     showDetailsModal = False, selectedProduct = emptyObject, selectedProductQty = Num 1,
     selectedImageIndex = 0, imageScrollInterval = None, isImageGalleryHovered = False,
     productSearchTerm = [], selectedCategory = ''All Products'', currentPage = 1,
     productsPerPage = 6, showCartModal = False, cartMode = EDIT, orderStatus = None,
     effects = [], timers = [], nextTimerId = 1 \<rparr>"

subsection \<open>Effects and timers\<close>

definition showToast :: "string \<Rightarrow> string \<Rightarrow> string \<Rightarrow> state \<Rightarrow> state" where
  "showToast title message variant st = st\<lparr>effects := effects st @ [Toast title message variant]\<rparr>"

fun isToast :: "effect \<Rightarrow> bool" where
  "isToast (Toast title message variant) = True"
| "isToast _ = False"

definition setTimer :: "timer_task \<Rightarrow> state \<Rightarrow> nat \<times> state" where
  "setTimer task st =
     (nextTimerId st,
      st\<lparr>timers := timers st @ [(nextTimerId st, task)], nextTimerId := Suc (nextTimerId st)\<rparr>)"

definition clearInterval :: "nat \<Rightarrow> state \<Rightarrow> state" where
  "clearInterval h st = st\<lparr>timers := filter (\<lambda>t. fst t \<noteq> h) (timers st)\<rparr>"

subsection \<open>Filtering and pagination\<close>

text \<open>
  The category filter compares the trimmed family of the product (the empty string when the
  family is absent or empty) with the trimmed category; the text filter runs when the
  search term is not empty, and a product without a brand (or with an empty one) can only
  match by name or code.
\<close>

definition matchesCategory :: "string \<Rightarrow> product \<Rightarrow> bool" where
  "matchesCategory cat p =
     (let productFamily = (case ProductFamily p of
                             None \<Rightarrow> []
                           | Some f \<Rightarrow> if f = [] then [] else trim f)
      in productFamily = trim cat)"

definition matchesSearch :: "string \<Rightarrow> product \<Rightarrow> bool" where
  "matchesSearch term p =
     (js_includes (toLowerCase (name p)) term \<or>
      js_includes (toLowerCase (productCode p)) term \<or>
      (case Brand p of
         None \<Rightarrow> False
       | Some b \<Rightarrow> b \<noteq> [] \<and> js_includes (toLowerCase b) term))"

definition filteredBySearchAndCategory :: "state \<Rightarrow> product list" where
  "filteredBySearchAndCategory st =
     (let filtered = products st;
          filtered = (if selectedCategory st \<noteq> ''All Products''
                      then filter (matchesCategory (selectedCategory st)) filtered
                      else filtered);
          filtered = (if productSearchTerm st \<noteq> []
                      then filter (matchesSearch (productSearchTerm st)) filtered
                      else filtered)
      in filtered)"

text \<open>
  \<open>Math.ceil(length / productsPerPage) || 1\<close>. The field \<open>productsPerPage\<close> is
  initialised to 6 and never assigned; for a positive page size the quotient of the two
  integers, rounded up, is \<open>(length + productsPerPage - 1) div productsPerPage\<close>, and
  the result \<open>0\<close> is falsy.
\<close>

definition totalPages :: "state \<Rightarrow> nat" where
  "totalPages st =
     (let n = (length (filteredBySearchAndCategory st) + productsPerPage st - 1)
                div productsPerPage st
      in if n = 0 then 1 else n)"

definition paginatedProducts :: "state \<Rightarrow> product list" where
  "paginatedProducts st =
     (let start = (currentPage st - 1) * int (productsPerPage st);
          fin = start + int (productsPerPage st)
      in js_slice (filteredBySearchAndCategory st) start fin)"

definition canGoPrevious :: "state \<Rightarrow> bool" where
  "canGoPrevious st = (currentPage st > 1)"

definition canGoNext :: "state \<Rightarrow> bool" where
  "canGoNext st = (currentPage st < int (totalPages st))"

definition handlePreviousPage :: "state \<Rightarrow> state" where
  "handlePreviousPage st =
     (if canGoPrevious st then st\<lparr>currentPage := currentPage st - 1\<rparr> else st)"

definition handleNextPage :: "state \<Rightarrow> state" where
  "handleNextPage st =
     (if canGoNext st then st\<lparr>currentPage := currentPage st + 1\<rparr> else st)"

text \<open>
  \<open>handlePageClick\<close> takes the integer that \<open>parseInt\<close> reads from the \<open>data-page\<close>
  attribute of the clicked button and stores it.
\<close>

definition handlePageClick :: "int \<Rightarrow> state \<Rightarrow> state" where
  "handlePageClick pageNum st = st\<lparr>currentPage := pageNum\<rparr>"

text \<open>The page buttons: the loop \<open>for (i = 1; i <= totalPages; i++)\<close>.\<close>

definition pageNumbers :: "state \<Rightarrow> (int \<times> bool) list" where
  "pageNumbers st = map (\<lambda>i. (i, i = currentPage st)) [1..int (totalPages st)]"

subsection \<open>The details modal and its image gallery\<close>

definition handleViewDetails :: "string \<Rightarrow> state \<Rightarrow> state" where
  "handleViewDetails ident st =
     (case find (\<lambda>p. productId p = ident) (products st) of
        None \<Rightarrow> st
      | Some pr \<Rightarrow>
          let st1 = st\<lparr>selectedProduct :=
                        \<lparr> sel_productId = Some (productId pr),
                          sel_name = Some (name pr),
                          sel_unitPrice = Some (unitPrice pr),
                          sel_imageUrls = imageUrls pr,
                          sel_brand = Some (case Brand pr of
                                              None \<Rightarrow> name pr
                                            | Some b \<Rightarrow> if b = [] then name pr else b),
                          sel_category = Some (case Category pr of
                                                 None \<Rightarrow> ''General''
                                               | Some c \<Rightarrow> if c = [] then ''General'' else c),
                          sel_availableUnits = Some 10053 \<rparr>,
                      selectedProductQty := Num 1,
                      selectedImageIndex := 0,
                      showDetailsModal := True\<rparr>
          in snd (setTimer StartImageScrollLater st1))"

text \<open>A timer handle is truthy when it is not \<open>0\<close>.\<close>

definition stopImageScroll :: "state \<Rightarrow> state" where
  "stopImageScroll st =
     (case imageScrollInterval st of
        None \<Rightarrow> st
      | Some h \<Rightarrow> if h = 0 then st else (clearInterval h st)\<lparr>imageScrollInterval := None\<rparr>)"

definition closeDetailsModal :: "state \<Rightarrow> state" where
  "closeDetailsModal st =
     stopImageScroll (st\<lparr>showDetailsModal := False, selectedProduct := emptyObject,
                         selectedProductQty := Num 1, selectedImageIndex := 0\<rparr>)"

text \<open>\<open>selectedProduct.imageUrls && selectedProduct.imageUrls.length > 1\<close>\<close>

definition hasSeveralImages :: "state \<Rightarrow> bool" where
  "hasSeveralImages st =
     (case sel_imageUrls (selectedProduct st) of None \<Rightarrow> False | Some urls \<Rightarrow> length urls > 1)"

definition startImageScroll :: "state \<Rightarrow> state" where
  "startImageScroll st =
     (if hasSeveralImages st
      then let st1 = stopImageScroll st;
               (h, st2) = setTimer NextImageTick st1
           in st2\<lparr>imageScrollInterval := Some h\<rparr>
      else st)"

definition nextImage :: "state \<Rightarrow> state" where
  "nextImage st =
     (case sel_imageUrls (selectedProduct st) of
        None \<Rightarrow> st
      | Some urls \<Rightarrow>
          if length urls > 1
          then st\<lparr>selectedImageIndex := js_rem (selectedImageIndex st + 1) (int (length urls))\<rparr>
          else st)"

definition handleImageGalleryMouseEnter :: "state \<Rightarrow> state" where
  "handleImageGalleryMouseEnter st = stopImageScroll (st\<lparr>isImageGalleryHovered := True\<rparr>)"

definition handleImageGalleryMouseLeave :: "state \<Rightarrow> state" where
  "handleImageGalleryMouseLeave st = startImageScroll (st\<lparr>isImageGalleryHovered := False\<rparr>)"

text \<open>
  \<open>selectProductImage\<close> takes the integer that \<open>parseInt\<close> reads from the \<open>data-index\<close>
  attribute of the clicked thumbnail and stores it.
\<close>

definition selectProductImage :: "int \<Rightarrow> state \<Rightarrow> state" where
  "selectProductImage index st =
     (let st1 = st\<lparr>selectedImageIndex := index\<rparr>;
          st2 = st1\<lparr>isImageGalleryHovered := True\<rparr>;
          st3 = stopImageScroll st2
      in snd (setTimer ResumeImageScrollLater st3))"

text \<open>The callback of the timeout that \<open>selectProductImage\<close> sets.\<close>

definition resumeImageScroll :: "state \<Rightarrow> state" where
  "resumeImageScroll st =
     (if isImageGalleryHovered st
      then startImageScroll (st\<lparr>isImageGalleryHovered := False\<rparr>)
      else st)"

text \<open>The thumbnails of the modal: url, index and whether it is the selected one.\<close>

definition productImages :: "state \<Rightarrow> (string \<times> int \<times> bool) list" where
  "productImages st =
     (case sel_imageUrls (selectedProduct st) of
        None \<Rightarrow> []
      | Some urls \<Rightarrow>
          map (\<lambda>(i, url). (url, int i, int i = selectedImageIndex st)) (enumerate 0 urls))"

text \<open>\<open>selectedProduct.availableUnits || 10053\<close>\<close>

definition unitsLimit :: "state \<Rightarrow> jsnum" where
  "unitsLimit st =
     (case sel_availableUnits (selectedProduct st) of
        None \<Rightarrow> Num 10053
      | Some n \<Rightarrow> if n = 0 then Num 10053 else Num (of_int n))"

definition incrementQty :: "state \<Rightarrow> state" where
  "incrementQty st =
     (if js_lt (selectedProductQty st) (unitsLimit st)
      then st\<lparr>selectedProductQty := js_add (selectedProductQty st) (Num 1)\<rparr>
      else st)"

definition decrementQty :: "state \<Rightarrow> state" where
  "decrementQty st =
     (if js_lt (Num 1) (selectedProductQty st)
      then st\<lparr>selectedProductQty := js_sub (selectedProductQty st) (Num 1)\<rparr>
      else st)"

definition handleDetailsQtyChange :: "jsnum \<Rightarrow> state \<Rightarrow> state" where
  "handleDetailsQtyChange q st =
     (if js_lt (Num 0) q \<and> js_le q (unitsLimit st)
      then st\<lparr>selectedProductQty := q\<rparr>
      else st)"

subsection \<open>The cart\<close>

definition handleQtyChange :: "string \<Rightarrow> jsnum \<Rightarrow> state \<Rightarrow> state" where
  "handleQtyChange ident q st =
     st\<lparr>products := map (\<lambda>p. if productId p = ident then p\<lparr>qty := Some q\<rparr> else p) (products st)\<rparr>"

definition resetProductQty :: "string \<Rightarrow> state \<Rightarrow> state" where
  "resetProductQty ident st =
     (let st1 = st\<lparr>products :=
                     map (\<lambda>p. if productId p = ident then p\<lparr>qty := None\<rparr> else p) (products st)\<rparr>
      in st1\<lparr>filteredProducts :=
               map (\<lambda>p. if productId p = ident then p\<lparr>qty := None\<rparr> else p)
                 (filteredProducts st1)\<rparr>)"

definition resetAllProductQty :: "state \<Rightarrow> state" where
  "resetAllProductQty st =
     (let st1 = st\<lparr>products := map (\<lambda>p. p\<lparr>qty := None\<rparr>) (products st)\<rparr>
      in st1\<lparr>filteredProducts := products st1\<rparr>)"

text \<open>The name of a product inside a template string: \<open>undefined\<close> prints as such.\<close>

definition nameText :: "string option \<Rightarrow> string" where
  "nameText n = (case n of None \<Rightarrow> ''undefined'' | Some s \<Rightarrow> s)"

text \<open>
  \<open>addDetailsModalToCart\<close> reads the product and the quantity of the modal. A line of the
  same \<open>productId\<close> is rewritten in place, with the stored price of the line; otherwise a
  line is appended.
\<close>

definition addDetailsModalToCart :: "state \<Rightarrow> state" where
  "addDetailsModalToCart st =
     (let pr = selectedProduct st;
          q = selectedProductQty st
      in if invalidQty q
         then showToast ''Invalid Quantity'' ''Enter quantity greater than 0'' ''error'' st
         else
           let st1 =
                 (case findIndex (\<lambda>c. line_productId c = sel_productId pr) (cart st) of
                    Some index \<Rightarrow>
                      let updated = cart st;
                          item = updated ! index
                      in st\<lparr>cart := updated[index := item\<lparr>
                                line_qty := js_add (line_qty item) q,
                                total := js_mul (js_add (line_qty item) q)
                                           (undefToNumber (price item))\<rparr>]\<rparr>
                  | None \<Rightarrow>
                      st\<lparr>cart := cart st @
                                [\<lparr> line_productId = sel_productId pr,
                                   line_name = sel_name pr,
                                   line_qty = q,
                                   price = sel_unitPrice pr,
                                   total = js_mul q (undefToNumber (sel_unitPrice pr)) \<rparr>]\<rparr>);
               st2 = showToast ''Success'' (nameText (sel_name pr) @ '' added to cart'')
                       ''success'' st1
           in closeDetailsModal st2)"

definition handleQuickAddToCart :: "string \<Rightarrow> state \<Rightarrow> state" where
  "handleQuickAddToCart ident st =
     (case find (\<lambda>p. productId p = ident) (products st) of
        None \<Rightarrow> showToast ''Error'' ''Product not found'' ''error'' st
      | Some pr \<Rightarrow>
          let q = Num 1;
              st1 =
                (case findIndex (\<lambda>c. line_productId c = Some ident) (cart st) of
                   Some index \<Rightarrow>
                     let updated = cart st;
                         item = updated ! index
                     in st\<lparr>cart := updated[index := item\<lparr>
                               line_qty := js_add (line_qty item) q,
                               total := js_mul (js_add (line_qty item) q)
                                          (undefToNumber (price item))\<rparr>]\<rparr>
                 | None \<Rightarrow>
                     st\<lparr>cart := cart st @
                               [\<lparr> line_productId = Some ident,
                                  line_name = Some (name pr),
                                  line_qty = Num 1,
                                  price = Some (unitPrice pr),
                                  total = js_mul (Num 1) (unitPrice pr) \<rparr>]\<rparr>)
          in showToast ''Success'' (name pr @ '' added to cart'') ''success'' st1)"

text \<open>
  \<open>addToCart\<close> reads \<open>product.qty\<close> without testing that \<open>find\<close> found a product: for an
  id that is not in the list the handler throws a \<open>TypeError\<close>. A \<open>null\<close> quantity is
  falsy and is rejected like an invalid number.
\<close>

datatype js_error = TypeError

definition addToCart :: "string \<Rightarrow> state \<Rightarrow> js_error + state" where
  "addToCart ident st =
     (case find (\<lambda>p. productId p = ident) (products st) of
        None \<Rightarrow> Inl TypeError
      | Some pr \<Rightarrow>
          (case qty pr of
             None \<Rightarrow>
               Inr (showToast ''Invalid Quantity'' ''Enter quantity greater than 0'' ''error'' st)
           | Some q \<Rightarrow>
               if invalidQty q
               then Inr (showToast ''Invalid Quantity'' ''Enter quantity greater than 0''
                           ''error'' st)
               else
                 let st1 =
                       (case findIndex (\<lambda>c. line_productId c = Some ident) (cart st) of
                          Some index \<Rightarrow>
                            let updated = cart st;
                                item = updated ! index
                            in st\<lparr>cart := updated[index := item\<lparr>
                                      line_qty := js_add (line_qty item) q,
                                      total := js_mul (js_add (line_qty item) q)
                                                 (undefToNumber (price item))\<rparr>]\<rparr>
                        | None \<Rightarrow>
                            st\<lparr>cart := cart st @
                                      [\<lparr> line_productId = Some ident,
                                         line_name = Some (name pr),
                                         line_qty = q,
                                         price = Some (unitPrice pr),
                                         total = js_mul q (unitPrice pr) \<rparr>]\<rparr>)
                 in Inr (resetProductQty ident st1)))"

definition updateCartQty :: "string \<Rightarrow> jsnum \<Rightarrow> state \<Rightarrow> state" where
  "updateCartQty ident q st =
     st\<lparr>cart := map (\<lambda>c. if line_productId c = Some ident
                           then c\<lparr>line_qty := q, total := js_mul q (undefToNumber (price c))\<rparr>
                           else c) (cart st)\<rparr>"

definition removeItem :: "string \<Rightarrow> state \<Rightarrow> state" where
  "removeItem ident st =
     showToast ''Success'' ''Product removed from cart'' ''success''
       (st\<lparr>cart := filter (\<lambda>c. line_productId c \<noteq> Some ident) (cart st)\<rparr>)"

definition closeCart :: "state \<Rightarrow> state" where
  "closeCart st = resetAllProductQty (st\<lparr>showCartModal := False, cartMode := EDIT\<rparr>)"

definition clearCart :: "state \<Rightarrow> state" where
  "clearCart st = closeCart (st\<lparr>cart := []\<rparr>)"

definition totalAmount :: "state \<Rightarrow> jsnum" where
  "totalAmount st = foldl (\<lambda>sum c. js_add sum (total c)) (Num 0) (cart st)"

definition openCart :: "state \<Rightarrow> state" where
  "openCart st =
     (if length (cart st) = 0 then st else st\<lparr>cartMode := EDIT, showCartModal := True\<rparr>)"

definition navigateToRelatedTab :: "state \<Rightarrow> state" where
  "navigateToRelatedTab st = st\<lparr>effects := effects st @ [Navigate (recordId st)]\<rparr>"

definition closeSummary :: "state \<Rightarrow> state" where
  "closeSummary st =
     navigateToRelatedTab
       (resetAllProductQty (st\<lparr>cart := [], showCartModal := False, cartMode := EDIT\<rparr>))"

subsection \<open>Submitting the cart\<close>

text \<open>
  \<open>saveAll\<close> builds the order lines, calls the Apex method \<open>addProducts\<close> and registers
  one callback with \<open>then\<close>; it registers none for a rejection. The outcome of the call is
  a parameter of the model: the state after \<open>saveAll\<close> and after the promise has settled.
\<close>

datatype outcome = Fulfilled | Rejected

text \<open>The callback of the interval that the \<open>then\<close> callback starts; \<open>h\<close> is its handle.\<close>

definition countdownTick :: "nat \<Rightarrow> state \<Rightarrow> state" where
  "countdownTick h st =
     (let st1 = st\<lparr>countdown := js_sub (countdown st) (Num 1)\<rparr>;
          st2 = st1\<lparr>progressWidth := js_mul (js_div (countdown st1) (Num 3)) (Num 100)\<rparr>
      in if js_eq (countdown st2) (Num 0) then clearInterval h st2 else st2)"

definition saveAllThen :: "state \<Rightarrow> state" where
  "saveAllThen st =
     (let st1 = st\<lparr>cartMode := SUMMARY\<rparr>;
          st2 = st1\<lparr>showCartModal := True\<rparr>;
          st3 = resetAllProductQty st2;
          st4 = st3\<lparr>countdown := Num 3\<rparr>;
          st5 = st4\<lparr>progressWidth := Num 100\<rparr>;
          (interval, st6) = setTimer CountdownTick st5;
          st7 = st6\<lparr>effects := effects st6 @ [RefreshEvent]\<rparr>
      in snd (setTimer CloseSummaryLater st7))"

definition saveAll :: "outcome \<Rightarrow> state \<Rightarrow> state" where
  "saveAll result st =
     (let lines = map (\<lambda>c. \<lparr> Product2Id = line_productId c, Quantity = line_qty c,
                               UnitPrice = price c \<rparr>) (cart st);
          st1 = st\<lparr>effects := effects st @ [AddProducts (recordId st) lines]\<rparr>
      in case result of
           Fulfilled \<Rightarrow> saveAllThen st1
         | Rejected \<Rightarrow> st1)"

subsection \<open>Example states\<close>

text \<open>Two products and a component that has loaded them, for the concrete checks below.\<close>

definition widget :: product where
  "widget = \<lparr> productId = ''P1'', name = ''Widget'', productCode = ''W-1'',
     unitPrice = Num 10, Brand = Some ''Acme'', ProductFamily = Some ''Service'',
     Category = None, imageUrls = Some [''a.png'', ''b.png'', ''c.png''], qty = None \<rparr>"

definition gadget :: product where
  "gadget = \<lparr> productId = ''P2'', name = ''Gadget'', productCode = ''G-7'',
     unitPrice = Num (5 / 2), Brand = None, ProductFamily = Some ''Consumable'',
     Category = None, imageUrls = Some [''g.png''], qty = None \<rparr>"

definition widgetLine :: cart_line where
  "widgetLine = \<lparr> line_productId = Some ''P1'', line_name = Some ''Widget'',
     line_qty = Num 2, price = Some (Num 10), total = Num 20 \<rparr>"

definition shop :: state where
  "shop = (initial ''R1'')\<lparr>products := [widget, gadget], filteredProducts := [widget, gadget]\<rparr>"

definition shopWithCart :: state where
  "shopWithCart = shop\<lparr>cart := [widgetLine], showCartModal := True\<rparr>"

text \<open>The catalogue price of the widget has changed since its line was added.\<close>

definition repriced :: state where
  "repriced = shopWithCart\<lparr>products := [widget\<lparr>unitPrice := Num 12\<rparr>, gadget]\<rparr>"

definition twoPages :: state where
  "twoPages = shop\<lparr>productsPerPage := 1\<rparr>"

definition galleryOpen :: state where
  "galleryOpen = handleViewDetails ''P1'' shop"

subsection \<open>Predicates of the properties\<close>

text \<open>
  The list \<open>filteredProducts\<close> mirrors \<open>products\<close>: it holds the same products with the
  transient quantity cleared.
\<close>

definition productsMirrored :: "state \<Rightarrow> bool" where
  "productsMirrored st = (filteredProducts st = map (\<lambda>p. p\<lparr>qty := None\<rparr>) (products st))"

text \<open>
  The selected image index is a position of the image list of the product in the modal,
  whenever that product has a list with at least one image.
\<close>

definition indexInRange :: "state \<Rightarrow> bool" where
  "indexInRange st =
     (case sel_imageUrls (selectedProduct st) of
        None \<Rightarrow> True
      | Some urls \<Rightarrow>
          urls = [] \<or> (0 \<le> selectedImageIndex st \<and> selectedImageIndex st < int (length urls)))"

text \<open>
  The cart \<open>new\<close> is the cart \<open>old\<close> with \<open>q\<close> more units in line \<open>i\<close>: the line keeps its
  product, name and price, its quantity grows by \<open>q\<close>, its total is the new quantity times
  the price stored in the line, and no other line changes (putting the old line back
  gives the old cart).
\<close>

definition lineIncremented :: "cart_line list \<Rightarrow> cart_line list \<Rightarrow> nat \<Rightarrow> jsnum \<Rightarrow> bool" where
  "lineIncremented old new i q =
     (length new = length old \<and>
      line_productId (new ! i) = line_productId (old ! i) \<and>
      line_name (new ! i) = line_name (old ! i) \<and>
      price (new ! i) = price (old ! i) \<and>
      line_qty (new ! i) = js_add (line_qty (old ! i)) q \<and>
      total (new ! i) = js_mul (js_add (line_qty (old ! i)) q) (undefToNumber (price (old ! i))) \<and>
      new[i := old ! i] = old)"

section \<open>Properties\<close>

subsection \<open>Rounding\<close>

lemma pow2_pos: "0 < pow2 k"
  by (simp add: pow2_def)

lemma roundHalfEven_nonneg: "0 \<le> x \<Longrightarrow> 0 \<le> roundHalfEven x"
  by (auto simp add: roundHalfEven_def Let_def)

lemma roundHalfEven_of_int: "roundHalfEven (of_int m) = m"
  by (simp add: roundHalfEven_def Let_def)

lemma roundHalfEven_near: "\<bar>of_int (roundHalfEven x) - x\<bar> \<le> 1 / 2"
  by (auto simp add: roundHalfEven_def Let_def abs_if) linarith+

text \<open>\<open>floorLog2\<close> is the binary exponent.\<close>

lemma pow2_powi: "pow2 k = 2 powi k"
  by (simp add: pow2_def power_int_def field_simps)

lemma floorLog2_bounds:
  assumes "0 < x"
  shows "pow2 (floorLog2 x) \<le> x \<and> x < pow2 (floorLog2 x + 1)"
proof -
  obtain p q where pq: "quotient_of x = (p, q)"
    by (cases "quotient_of x")
  have q: "0 < q" and x: "x = of_int p / of_int q"
    using quotient_of_denom_pos [OF pq] quotient_of_div [OF pq] by simp_all
  have p: "0 < p"
    using assms q x by (simp add: zero_less_divide_iff)
  define a where "a = bitlen p"
  define b where "b = bitlen q"
  have a: "1 \<le> a" and b: "1 \<le> b"
    using p q by (simp_all add: a_def b_def bitlen_alt_def)
  have pb: "2 powi (a - 1) \<le> (of_int p :: rat)" "(of_int p :: rat) < 2 powi a"
  proof -
    have "2 ^ nat (a - 1) \<le> p" "p < 2 ^ nat a"
      using bitlen_bounds [OF p] by (simp_all add: a_def)
    then have "(of_int (2 ^ nat (a - 1)) :: rat) \<le> of_int p" "(of_int p :: rat) < of_int (2 ^ nat a)"
      by (simp_all only: of_int_le_iff of_int_less_iff)
    then show "2 powi (a - 1) \<le> (of_int p :: rat)" "(of_int p :: rat) < 2 powi a"
      using a by (simp_all add: power_int_def)
  qed
  have qb: "2 powi (b - 1) \<le> (of_int q :: rat)" "(of_int q :: rat) < 2 powi b"
  proof -
    have "2 ^ nat (b - 1) \<le> q" "q < 2 ^ nat b"
      using bitlen_bounds [OF q] by (simp_all add: b_def)
    then have "(of_int (2 ^ nat (b - 1)) :: rat) \<le> of_int q" "(of_int q :: rat) < of_int (2 ^ nat b)"
      by (simp_all only: of_int_le_iff of_int_less_iff)
    then show "2 powi (b - 1) \<le> (of_int q :: rat)" "(of_int q :: rat) < 2 powi b"
      using b by (simp_all add: power_int_def)
  qed
  have qpos: "(0::rat) < of_int q" and ppos: "(0::rat) < of_int p"
    using p q by simp_all
  have upper: "x < 2 powi (a - b + 1)"
  proof -
    have "x * 2 powi (b - 1) \<le> x * of_int q"
      using qb(1) assms by (simp add: mult_left_mono)
    also have "\<dots> = of_int p"
      using qpos by (simp add: x)
    also have "\<dots> < 2 powi a"
      by (rule pb(2))
    also have "\<dots> = (2::rat) powi (a - b + 1) * 2 powi (b - 1)"
      by (simp add: power_int_add [symmetric])
    finally show ?thesis
      by (simp add: zero_less_power_int)
  qed
  have lower: "2 powi (a - b - 1) \<le> x"
  proof -
    have "(2::rat) powi (a - b - 1) * of_int q \<le> 2 powi (a - b - 1) * 2 powi b"
      using qb(2) by (simp add: mult_left_mono zero_less_power_int less_imp_le)
    also have "\<dots> = 2 powi (a - 1)"
      by (simp add: power_int_add [symmetric])
    also have "\<dots> \<le> of_int p"
      by (rule pb(1))
    finally show ?thesis
      using qpos by (simp add: x pos_le_divide_eq)
  qed
  show ?thesis
  proof (cases "pow2 (a - b) \<le> x")
    case True
    then have "floorLog2 x = a - b"
      by (simp add: floorLog2_def Let_def pq a_def b_def)
    with True upper show ?thesis
      by (simp add: pow2_powi)
  next
    case False
    then have "floorLog2 x = a - b - 1"
      by (simp add: floorLog2_def Let_def pq a_def b_def)
    with False lower show ?thesis
      by (simp add: pow2_powi)
  qed
qed

lemma roundPositive_sign:
  assumes "0 < x"
  shows "roundPositive x = PosInf \<or> (\<exists>y. 0 \<le> y \<and> roundPositive x = Num y)"
proof -
  let ?ulp = "pow2 (max (floorLog2 x) (- 1022) - 52)"
  have "0 \<le> x / ?ulp"
    using assms pow2_pos [of "max (floorLog2 x) (- 1022) - 52"] by simp
  then have "0 \<le> of_int (roundHalfEven (x / ?ulp)) * ?ulp"
    using pow2_pos [of "max (floorLog2 x) (- 1022) - 52"] roundHalfEven_nonneg [of "x / ?ulp"]
    by simp
  then show ?thesis
    by (simp add: roundPositive_def Let_def)
qed

lemma floorLog2_int:
  assumes "0 < n"
  shows "floorLog2 (of_int n) = bitlen n - 1"
proof -
  have b: "2 ^ nat (bitlen n - 1) \<le> n" and pos: "1 \<le> bitlen n"
    using bitlen_bounds [OF assms] assms by (simp_all add: bitlen_alt_def)
  have one: "bitlen 1 = 1"
    by (simp add: bitlen_alt_def)
  have "pow2 (bitlen n - 1) = of_int (2 ^ nat (bitlen n - 1))"
    using pos by (simp add: pow2_def)
  also have "\<dots> \<le> of_int n"
    using b by (simp only: of_int_le_iff)
  finally show ?thesis
    by (simp add: floorLog2_def Let_def one)
qed

lemma roundPositive_int:
  assumes "0 < n" and "n < 2 ^ 53"
  shows "roundPositive (of_int n) = Num (of_int n)"
proof -
  define e where "e = bitlen n - 1"
  have b: "2 ^ nat e \<le> n" and pos: "0 \<le> e"
    using bitlen_bounds [OF assms(1)] assms(1) by (simp_all add: e_def bitlen_alt_def)
  have "(2::int) ^ nat e < 2 ^ 53"
    using b assms(2) by linarith
  then have "nat e < 53"
    using power_less_imp_less_exp [of "2::int" "nat e" 53] by simp
  then have le: "e \<le> 52"
    by linarith
  have fl: "floorLog2 (of_int n) = e"
    by (simp add: floorLog2_int [OF assms(1)] e_def)
  have m: "max e (- 1022) = e"
    using pos by simp
  have ulp: "pow2 (e - 52) = 1 / of_int (2 ^ nat (52 - e))"
  proof (cases "e = 52")
    case True
    then show ?thesis by (simp add: pow2_def)
  next
    case False
    with le have "e - 52 < 0" by simp
    then show ?thesis by (simp add: pow2_def)
  qed
  have quot: "of_int n / pow2 (e - 52) = (of_int (n * 2 ^ nat (52 - e)) :: rat)"
    by (simp add: ulp)
  have scaled: "(of_int (n * 2 ^ nat (52 - e)) :: rat) * pow2 (e - 52) = of_int n"
    by (simp add: ulp)
  have "roundPositive (of_int n) =
      Num (of_int (roundHalfEven (of_int n / pow2 (e - 52))) * pow2 (e - 52))"
    using le by (simp add: roundPositive_def Let_def fl m)
  also have "\<dots> = Num (of_int n)"
    by (simp only: quot roundHalfEven_of_int scaled)
  finally show ?thesis .
qed

lemma toDouble_int:
  assumes "\<bar>n\<bar> < 2 ^ 53"
  shows "toDouble (of_int n) = Num (of_int n)"
proof -
  consider "n = 0" | "0 < n" | "n < 0" by linarith
  then show ?thesis
  proof cases
    case 1
    then show ?thesis by (simp add: toDouble_def)
  next
    case 2
    with assms show ?thesis by (simp add: toDouble_def roundPositive_int)
  next
    case 3
    with assms have "roundPositive (of_int (- n)) = Num (of_int (- n))"
      by (intro roundPositive_int) simp_all
    with 3 show ?thesis by (simp add: toDouble_def)
  qed
qed

lemma js_add_int:
  "\<bar>a + b\<bar> < 2 ^ 53 \<Longrightarrow> js_add (Num (of_int a)) (Num (of_int b)) = Num (of_int (a + b))"
  using toDouble_int [of "a + b"] by simp

lemma js_mul_int:
  assumes "\<bar>a * b\<bar> < 2 ^ 53" and "a * b \<noteq> 0"
  shows "js_mul (Num (of_int a)) (Num (of_int b)) = Num (of_int (a * b))"
proof -
  have "toDouble (\<bar>of_int a\<bar> * \<bar>of_int b\<bar>) = Num (of_int \<bar>a * b\<bar>)"
    using toDouble_int [of "\<bar>a * b\<bar>"] assms by (simp add: abs_mult)
  with assms(2) show ?thesis
    by (auto simp add: js_mul_def Let_def abs_mult mult_less_0_iff zero_less_mult_iff
        not_less abs_if split: if_splits)
qed

lemma js_mul_nonpositive:
  assumes "r \<le> 0" and "0 \<le> p"
  shows "js_le (js_mul (Num r) (Num p)) (Num 0)"
proof (cases "r = 0 \<or> p = 0")
  case True
  then show ?thesis
    using assms by (auto simp add: js_mul_def js_le_def toDouble_def Let_def)
next
  case False
  with assms have neg: "r < 0" "0 < p"
    by auto
  then have pos: "0 < \<bar>r\<bar> * \<bar>p\<bar>"
    by (intro mult_pos_pos) auto
  from neg have "r * p < 0"
    by (rule mult_neg_pos)
  with roundPositive_sign [OF pos] neg pos show ?thesis
    by (auto simp add: js_mul_def js_le_def toDouble_def Let_def)
qed

lemma js_le_Num: "js_le (Num a) (Num b) = (a \<le> b)"
  by (simp add: js_le_def)

lemma js_lt_Num: "js_lt (Num a) (Num b) = (a < b)"
  by (simp add: js_lt_def)

lemma invalidQty_iff: "invalidQty q \<longleftrightarrow> \<not> js_lt (Num 0) q"
  by (cases q) (auto simp add: invalidQty_def js_le_def js_lt_def)

text \<open>Two roundings: \<open>2^53 + 1\<close> is \<open>2^53\<close>, and three times the double nearest to 0.1.\<close>

lemma double_addition_rounds: "js_add (Num (2 ^ 53)) (Num 1) = Num (2 ^ 53)"
  by code_simp

lemma double_product_rounds:
  "js_mul (Num 3) (Num (3602879701896397 / 2 ^ 55)) = Num (10808639105689192 / 2 ^ 55)"
  by code_simp


subsection \<open>Fields that a handler does not write\<close>

lemma stopImageScroll_keeps:
  "cart (stopImageScroll st) = cart st"
  "products (stopImageScroll st) = products st"
  "selectedProduct (stopImageScroll st) = selectedProduct st"
  "selectedImageIndex (stopImageScroll st) = selectedImageIndex st"
  by (simp_all add: stopImageScroll_def clearInterval_def split: option.splits)

lemma closeDetailsModal_keeps:
  "cart (closeDetailsModal st) = cart st"
  "products (closeDetailsModal st) = products st"
  by (simp_all add: closeDetailsModal_def stopImageScroll_keeps)

lemma filtered_currentPage:
  "filteredBySearchAndCategory (st\<lparr>currentPage := k\<rparr>) = filteredBySearchAndCategory st"
  by (simp add: filteredBySearchAndCategory_def Let_def)

lemma totalPages_currentPage:
  "totalPages (st\<lparr>currentPage := k\<rparr>) = totalPages st"
  by (simp add: totalPages_def filtered_currentPage)

subsection \<open>Quick add of an unknown product\<close>

lemma find_None_iff_notin:
  "find (\<lambda>p. productId p = ident) ps = None \<longleftrightarrow> ident \<notin> productId ` set ps"
  by (induction ps) auto

text \<open>
  Claim C9. \<open>handleQuickAddToCart\<close> with a product id that no loaded product has leaves
  the cart as it was (the same lines, hence the same length and the same total amount) and
  every other field of the component too; the only thing it does is to dispatch the error
  toast "Product not found".
\<close>

theorem quickAdd_unknown_product:
  "ident \<notin> productId ` set (products st) \<Longrightarrow>
     cart (handleQuickAddToCart ident st) = cart st \<and>
     length (cart (handleQuickAddToCart ident st)) = length (cart st) \<and>
     totalAmount (handleQuickAddToCart ident st) = totalAmount st \<and>
     effects (handleQuickAddToCart ident st) =
       effects st @ [Toast ''Error'' ''Product not found'' ''error''] \<and>
     (handleQuickAddToCart ident st)\<lparr>effects := effects st\<rparr> = st"
  by (simp add: handleQuickAddToCart_def showToast_def totalAmount_def
        find_None_iff_notin [symmetric])

theorem quickAdd_unknown_product_witness:
  "cart (handleQuickAddToCart ''P9'' shopWithCart) = [widgetLine] \<and>
   totalAmount (handleQuickAddToCart ''P9'' shopWithCart) = Num 20 \<and>
   effects (handleQuickAddToCart ''P9'' shopWithCart) =
     [Toast ''Error'' ''Product not found'' ''error'']"
proof -
  have unknown: "''P9'' \<notin> productId ` set (products shopWithCart)"
    by (simp add: shopWithCart_def shop_def widget_def gadget_def)
  have before: "cart shopWithCart = [widgetLine]" "effects shopWithCart = []"
    "totalAmount shopWithCart = Num 20"
    using js_add_int [of 0 20]
    by (simp_all add: shopWithCart_def shop_def initial_def totalAmount_def widgetLine_def)
  from quickAdd_unknown_product [OF unknown] before show ?thesis
    by simp
qed

subsection \<open>Submitting\<close>

text \<open>
  Claim C1, as stated, fails: \<open>saveAll\<close> does not look at the cart, so with an empty cart
  and a call that succeeds the mode becomes \<open>SUMMARY\<close> and the countdown timers start.
\<close>

theorem saveAll_empty_cart_mutates:
  "cart (initial ''R1'') = [] \<and> cartMode (initial ''R1'') = EDIT \<and>
   timers (initial ''R1'') = [] \<and>
   cartMode (saveAll Fulfilled (initial ''R1'')) = SUMMARY \<and>
   timers (saveAll Fulfilled (initial ''R1'')) = [(1, CountdownTick), (2, CloseSummaryLater)]"
  by (simp add: saveAll_def saveAllThen_def setTimer_def resetAllProductQty_def Let_def
        initial_def)

text \<open>
  Claim C1, amended. \<open>saveAll\<close> does not look at the cart: with an empty cart it sends
  the empty list of lines, and what follows is what follows for every cart. When the call
  fails, the mode, the countdown, the progress width and the timers are what they were.
  When it succeeds, the mode is \<open>SUMMARY\<close>, the summary is shown, the countdown is 3, the
  progress width is 100, the countdown interval and the close timeout are started and
  the refresh event is dispatched after the call.
\<close>

theorem saveAll_empty_cart:
  "(cart st = [] \<longrightarrow>
      effects (saveAll Rejected st) = effects st @ [AddProducts (recordId st) []] \<and>
      effects (saveAll Fulfilled st) =
        effects st @ [AddProducts (recordId st) [], RefreshEvent]) \<and>
   cartMode (saveAll Rejected st) = cartMode st \<and>
   showCartModal (saveAll Rejected st) = showCartModal st \<and>
   countdown (saveAll Rejected st) = countdown st \<and>
   progressWidth (saveAll Rejected st) = progressWidth st \<and>
   timers (saveAll Rejected st) = timers st \<and>
   cartMode (saveAll Fulfilled st) = SUMMARY \<and>
   showCartModal (saveAll Fulfilled st) = True \<and>
   countdown (saveAll Fulfilled st) = Num 3 \<and>
   progressWidth (saveAll Fulfilled st) = Num 100 \<and>
   timers (saveAll Fulfilled st) =
     timers st @ [(nextTimerId st, CountdownTick), (Suc (nextTimerId st), CloseSummaryLater)] \<and>
   effects (saveAll Fulfilled st) =
     effects st @
       [AddProducts (recordId st)
          (map (\<lambda>c. \<lparr> Product2Id = line_productId c, Quantity = line_qty c,
                       UnitPrice = price c \<rparr>) (cart st)),
        RefreshEvent] \<and>
   cart (saveAll Fulfilled st) = cart st"
  by (simp add: saveAll_def saveAllThen_def setTimer_def resetAllProductQty_def Let_def)

theorem saveAll_empty_cart_witness:
  "cartMode (saveAll Rejected shop) = EDIT \<and> countdown (saveAll Rejected shop) = Num 3 \<and>
   timers (saveAll Rejected shop) = [] \<and>
   effects (saveAll Rejected shop) = [AddProducts ''R1'' []] \<and>
   cartMode (saveAll Fulfilled shop) = SUMMARY \<and>
   countdown (saveAll Fulfilled shop) = Num 3 \<and>
   cartMode (saveAll Fulfilled shopWithCart) = SUMMARY \<and>
   timers (saveAll Fulfilled shopWithCart) = [(1, CountdownTick), (2, CloseSummaryLater)] \<and>
   cart (saveAll Fulfilled shopWithCart) = [widgetLine]"
proof -
  have empty: "cart shop = []"
    by (simp add: shop_def initial_def)
  have before: "cartMode shop = EDIT" "countdown shop = Num 3" "timers shop = []"
    "effects shop = []" "recordId shop = ''R1''"
    by (simp_all add: shop_def initial_def)
  have full: "cart shopWithCart = [widgetLine]" "timers shopWithCart = []"
    "nextTimerId shopWithCart = 1"
    by (simp_all add: shopWithCart_def shop_def initial_def)
  from saveAll_empty_cart [of shop] saveAll_empty_cart [of shopWithCart] empty before full
  show ?thesis
    by simp
qed

text \<open>
  Claim C2, as stated, fails in its last part: \<open>saveAll\<close> registers no rejection callback,
  so a failed call dispatches no toast. Here the only effect is the call itself.
\<close>

theorem saveAll_rejected_no_toast:
  "cart shopWithCart = [widgetLine] \<and> effects shopWithCart = [] \<and>
   effects (saveAll Rejected shopWithCart) =
     [AddProducts ''R1''
        [\<lparr> Product2Id = Some ''P1'', Quantity = Num 2, UnitPrice = Some (Num 10) \<rparr>]] \<and>
   filter isToast (effects (saveAll Rejected shopWithCart)) = []"
  by (simp add: saveAll_def Let_def shopWithCart_def shop_def initial_def widgetLine_def)

text \<open>
  Claim C2, amended. When the call to \<open>addProducts\<close> fails, \<open>saveAll\<close> changes no field of
  the component: the mode is not switched, the summary is not shown, the countdown and the
  timers are untouched and the cart is the one before the call. No notification is
  dispatched: the toasts among the effects are those dispatched before.
\<close>

theorem saveAll_rejected:
  "cartMode (saveAll Rejected st) = cartMode st \<and>
   showCartModal (saveAll Rejected st) = showCartModal st \<and>
   countdown (saveAll Rejected st) = countdown st \<and>
   progressWidth (saveAll Rejected st) = progressWidth st \<and>
   timers (saveAll Rejected st) = timers st \<and>
   cart (saveAll Rejected st) = cart st \<and>
   (saveAll Rejected st)\<lparr>effects := effects st\<rparr> = st \<and>
   filter isToast (effects (saveAll Rejected st)) = filter isToast (effects st)"
  by (simp add: saveAll_def Let_def)

subsection \<open>Changing the quantity of a line\<close>

text \<open>
  Claim C4. \<open>updateCartQty\<close> keeps the lines, their order, their product ids and their
  prices. Every line of the given product gets the given quantity (whatever the old one
  was) and the total \<open>quantity * price\<close> computed from the price stored in the line; the
  other lines and all other fields are untouched. The product is the product of doubles.
  Nothing is validated: a quantity \<open>r \<le> 0\<close> is stored as it is, and with a price
  \<open>p \<ge> 0\<close> the total is the product of \<open>r\<close> and \<open>p\<close>, which compares \<open><= 0\<close>.
\<close>

theorem updateCartQty_replaces:
  "length (cart (updateCartQty ident q st)) = length (cart st) \<and>
   map line_productId (cart (updateCartQty ident q st)) = map line_productId (cart st) \<and>
   map price (cart (updateCartQty ident q st)) = map price (cart st) \<and>
   (\<forall>i < length (cart st).
      (line_productId (cart st ! i) = Some ident \<longrightarrow>
         line_qty (cart (updateCartQty ident q st) ! i) = q \<and>
         total (cart (updateCartQty ident q st) ! i) =
           js_mul q (undefToNumber (price (cart st ! i))) \<and>
         line_name (cart (updateCartQty ident q st) ! i) = line_name (cart st ! i)) \<and>
      (line_productId (cart st ! i) \<noteq> Some ident \<longrightarrow>
         cart (updateCartQty ident q st) ! i = cart st ! i)) \<and>
   (\<forall>i r p. i < length (cart st) \<and> line_productId (cart st ! i) = Some ident \<and>
        q = Num r \<and> r \<le> 0 \<and> price (cart st ! i) = Some (Num p) \<and> 0 \<le> p \<longrightarrow>
        line_qty (cart (updateCartQty ident q st) ! i) = Num r \<and>
        total (cart (updateCartQty ident q st) ! i) = js_mul (Num r) (Num p) \<and>
        js_le (line_qty (cart (updateCartQty ident q st) ! i)) (Num 0) \<and>
        js_le (total (cart (updateCartQty ident q st) ! i)) (Num 0)) \<and>
   (updateCartQty ident q st)\<lparr>cart := cart st\<rparr> = st"
  by (auto simp add: updateCartQty_def js_mul_nonpositive js_le_Num)

theorem updateCartQty_replaces_witness:
  "cart (updateCartQty ''P1'' (Num (- 3)) shopWithCart) =
     [\<lparr> line_productId = Some ''P1'', line_name = Some ''Widget'', line_qty = Num (- 3),
        price = Some (Num 10), total = Num (- 30) \<rparr>]"
proof -
  have c: "cart shopWithCart = [widgetLine]"
    by (simp add: shopWithCart_def)
  have "length (cart (updateCartQty ''P1'' (Num (- 3)) shopWithCart)) = 1"
    using updateCartQty_replaces [of "''P1''" "Num (- 3)" shopWithCart] c by simp
  then obtain l where l: "cart (updateCartQty ''P1'' (Num (- 3)) shopWithCart) = [l]"
    by (cases "cart (updateCartQty ''P1'' (Num (- 3)) shopWithCart)") auto
  have "line_productId l = Some ''P1'' \<and> price l = Some (Num 10) \<and>
     line_qty l = Num (- 3) \<and> total l = Num (- 30) \<and> line_name l = Some ''Widget''"
    using updateCartQty_replaces [of "''P1''" "Num (- 3)" shopWithCart] c l
      js_mul_int [of "- 3" 10]
    by (simp add: widgetLine_def)
  with l show ?thesis by simp
qed

subsection \<open>Rejected quantities\<close>

text \<open>
  Claim C7. \<open>addToCart\<close>, for a product of the list whose entered quantity is \<open>null\<close>,
  \<open>NaN\<close> or a number \<open>\<le> 0\<close> (\<open>-0\<close> and \<open>-Infinity\<close> included), and
  \<open>addDetailsModalToCart\<close>, when the quantity of the modal is \<open>NaN\<close> or a number \<open>\<le> 0\<close>,
  dispatch the toast "Invalid Quantity" and change nothing else: the cart, its length and
  its total amount are the ones before the call.
\<close>

theorem add_rejects_invalid_quantity:
  "(\<forall>pr. find (\<lambda>p. productId p = ident) (products st) = Some pr \<and>
        (qty pr = None \<or> qty pr = Some NaN \<or> (\<exists>r. qty pr = Some (Num r) \<and> r \<le> 0) \<or>
         qty pr = Some NegZero \<or> qty pr = Some NegInf) \<longrightarrow>
        (\<exists>st'. addToCart ident st = Inr st' \<and>
           cart st' = cart st \<and> length (cart st') = length (cart st) \<and>
           totalAmount st' = totalAmount st \<and>
           effects st' = effects st @
             [Toast ''Invalid Quantity'' ''Enter quantity greater than 0'' ''error''] \<and>
           st'\<lparr>effects := effects st\<rparr> = st)) \<and>
   (selectedProductQty st = NaN \<or> (\<exists>r. selectedProductQty st = Num r \<and> r \<le> 0) \<or>
    selectedProductQty st = NegZero \<or> selectedProductQty st = NegInf \<longrightarrow>
      cart (addDetailsModalToCart st) = cart st \<and>
      length (cart (addDetailsModalToCart st)) = length (cart st) \<and>
      totalAmount (addDetailsModalToCart st) = totalAmount st \<and>
      effects (addDetailsModalToCart st) = effects st @
        [Toast ''Invalid Quantity'' ''Enter quantity greater than 0'' ''error''] \<and>
      (addDetailsModalToCart st)\<lparr>effects := effects st\<rparr> = st)"
  by (auto simp add: addToCart_def addDetailsModalToCart_def invalidQty_def js_le_def
        showToast_def totalAmount_def Let_def)

theorem add_rejects_invalid_quantity_witness:
  "addToCart ''P1'' (handleQtyChange ''P1'' (Num (- 1)) shopWithCart) =
     Inr ((handleQtyChange ''P1'' (Num (- 1)) shopWithCart)\<lparr>effects :=
            [Toast ''Invalid Quantity'' ''Enter quantity greater than 0'' ''error'']\<rparr>) \<and>
   cart (addDetailsModalToCart (shopWithCart\<lparr>selectedProductQty := Num 0\<rparr>)) = [widgetLine]"
proof -
  let ?s = "handleQtyChange ''P1'' (Num (- 1)) shopWithCart"
  let ?m = "shopWithCart\<lparr>selectedProductQty := Num 0\<rparr>"
  have found: "find (\<lambda>p. productId p = ''P1'') (products ?s) = Some (widget\<lparr>qty := Some (Num (- 1))\<rparr>)"
    by (simp add: handleQtyChange_def shopWithCart_def shop_def widget_def gadget_def)
  have e: "effects ?s = []" "cart ?m = [widgetLine]"
    by (simp_all add: handleQtyChange_def shopWithCart_def shop_def initial_def)
  from add_rejects_invalid_quantity [of "''P1''" ?s] found e(1)
  obtain st' where st': "addToCart ''P1'' ?s = Inr st'"
    "effects st' = [Toast ''Invalid Quantity'' ''Enter quantity greater than 0'' ''error'']"
    "st'\<lparr>effects := effects ?s\<rparr> = ?s"
    by auto
  have "st' = st'\<lparr>effects := effects ?s\<rparr>\<lparr>effects := effects st'\<rparr>"
    by simp
  with st' have first: "addToCart ''P1'' ?s = Inr (?s\<lparr>effects :=
      [Toast ''Invalid Quantity'' ''Enter quantity greater than 0'' ''error'']\<rparr>)"
    by simp
  have second: "cart (addDetailsModalToCart ?m) = [widgetLine]"
    using add_rejects_invalid_quantity [of "''P1''" ?m] e(2) by simp
  from first second show ?thesis by simp
qed

subsection \<open>Clearing the cart\<close>

lemma productsMirrored_preserved:
  "productsMirrored st \<Longrightarrow>
     productsMirrored (handleQtyChange ident q st) \<and>
     productsMirrored (resetProductQty ident st) \<and>
     productsMirrored (resetAllProductQty st)"
  by (simp add: productsMirrored_def handleQtyChange_def resetProductQty_def
        resetAllProductQty_def Let_def comp_def if_distrib cong: if_cong)

text \<open>
  Claim C10. After \<open>clearCart\<close> the cart is empty, the cart modal is closed, the mode is
  \<open>EDIT\<close> and every product has the quantity \<open>null\<close>; the products are otherwise the same,
  in the same order. The mirror list \<open>filteredProducts\<close> is set to the new product list,
  which is the value it had in every state where it mirrors the products. No other field
  changes: the search term, the category, the current page and the selected price book
  are the ones before, and putting the five written fields back gives the state before.
\<close>

theorem clearCart_frame:
  "cart (clearCart st) = [] \<and>
   showCartModal (clearCart st) = False \<and>
   cartMode (clearCart st) = EDIT \<and>
   (\<forall>p \<in> set (products (clearCart st)). qty p = None) \<and>
   products (clearCart st) = map (\<lambda>p. p\<lparr>qty := None\<rparr>) (products st) \<and>
   filteredProducts (clearCart st) = products (clearCart st) \<and>
   (productsMirrored st \<longrightarrow> filteredProducts (clearCart st) = filteredProducts st) \<and>
   productSearchTerm (clearCart st) = productSearchTerm st \<and>
   selectedCategory (clearCart st) = selectedCategory st \<and>
   currentPage (clearCart st) = currentPage st \<and>
   selectedPricebookId (clearCart st) = selectedPricebookId st \<and>
   (clearCart st)\<lparr>cart := cart st, showCartModal := showCartModal st,
       cartMode := cartMode st, products := products st,
       filteredProducts := filteredProducts st\<rparr> = st"
  by (simp add: clearCart_def closeCart_def resetAllProductQty_def productsMirrored_def Let_def)

theorem clearCart_frame_witness:
  "cart (clearCart (handleQtyChange ''P2'' (Num 4) shopWithCart)) = [] \<and>
   products (clearCart (handleQtyChange ''P2'' (Num 4) shopWithCart)) = [widget, gadget] \<and>
   filteredProducts (clearCart (handleQtyChange ''P2'' (Num 4) shopWithCart)) = [widget, gadget] \<and>
   showCartModal (clearCart (handleQtyChange ''P2'' (Num 4) shopWithCart)) = False"
proof -
  let ?s = "handleQtyChange ''P2'' (Num 4) shopWithCart"
  have m: "productsMirrored ?s"
    by (simp add: productsMirrored_def handleQtyChange_def shopWithCart_def shop_def
          widget_def gadget_def)
  have p: "products ?s = [widget, gadget\<lparr>qty := Some (Num 4)\<rparr>]"
    "filteredProducts ?s = [widget, gadget]"
    by (simp_all add: handleQtyChange_def shopWithCart_def shop_def widget_def gadget_def)
  have r: "widget\<lparr>qty := None\<rparr> = widget" "gadget\<lparr>qty := None\<rparr> = gadget"
    by (simp_all add: widget_def gadget_def)
  from clearCart_frame [of ?s] m p r show ?thesis
    by simp
qed

subsection \<open>One line per product\<close>

lemma findIndex_Some:
  "findIndex P xs = Some i \<Longrightarrow> i < length xs \<and> P (xs ! i)"
  by (induction xs arbitrary: i) (auto split: if_splits)

lemma findIndex_None_iff: "findIndex P xs = None \<longleftrightarrow> (\<forall>x \<in> set xs. \<not> P x)"
  by (induction xs) auto

lemma findIndex_None_notin:
  "findIndex (\<lambda>c. f c = k) xs = None \<longleftrightarrow> k \<notin> f ` set xs"
  by (auto simp add: findIndex_None_iff)

lemma findIndex_distinct:
  "distinct (map f xs) \<Longrightarrow> i < length xs \<Longrightarrow> f (xs ! i) = k \<Longrightarrow>
     findIndex (\<lambda>c. f c = k) xs = Some i"
proof (induction xs arbitrary: i)
  case Nil
  then show ?case by simp
next
  case (Cons x xs)
  show ?case
  proof (cases i)
    case 0
    with Cons.prems show ?thesis by simp
  next
    case (Suc j)
    with Cons.prems have "f x \<noteq> k"
      by (metis Suc_less_eq distinct.simps(2) length_Cons list.simps(9) nth_Cons_Suc nth_map nth_mem length_map)
    with Suc Cons show ?thesis by simp
  qed
qed

lemma ids_after_increment:
  "i < length xs \<Longrightarrow>
     map line_productId (xs[i := (xs ! i)\<lparr>line_qty := a, total := b\<rparr>]) = map line_productId xs"
  by (simp add: map_update list_update_same_conv)

lemma lineIncremented_update:
  "i < length xs \<Longrightarrow>
     lineIncremented xs
       (xs[i := (xs ! i)\<lparr>line_qty := js_add (line_qty (xs ! i)) q,
                         total := js_mul (js_add (line_qty (xs ! i)) q)
                                    (undefToNumber (price (xs ! i)))\<rparr>]) i q"
  by (simp add: lineIncremented_def)

lemma addToCart_distinct:
  assumes "distinct (map line_productId (cart st))" and "addToCart ident st = Inr st'"
  shows "distinct (map line_productId (cart st'))"
  using assms
  by (auto simp add: addToCart_def showToast_def resetProductQty_def Let_def
        ids_after_increment findIndex_None_notin
      dest: findIndex_Some split: option.splits if_splits)

lemma quickAdd_distinct:
  assumes "distinct (map line_productId (cart st))"
  shows "distinct (map line_productId (cart (handleQuickAddToCart ident st)))"
  using assms
  by (auto simp add: handleQuickAddToCart_def showToast_def Let_def
        ids_after_increment findIndex_None_notin
      dest: findIndex_Some split: option.splits if_splits)

lemma modalAdd_distinct:
  assumes "distinct (map line_productId (cart st))"
  shows "distinct (map line_productId (cart (addDetailsModalToCart st)))"
  using assms
  by (auto simp add: addDetailsModalToCart_def showToast_def Let_def closeDetailsModal_keeps
        ids_after_increment findIndex_None_notin
      dest: findIndex_Some split: option.splits if_splits)

lemma addToCart_increments:
  assumes "distinct (map line_productId (cart st))"
    and "i < length (cart st)" and "line_productId (cart st ! i) = Some ident"
    and "find (\<lambda>p. productId p = ident) (products st) = Some pr"
    and "qty pr = Some q" and "js_lt (Num 0) q"
  shows "\<exists>st'. addToCart ident st = Inr st' \<and> lineIncremented (cart st) (cart st') i q"
proof -
  have "findIndex (\<lambda>c. line_productId c = Some ident) (cart st) = Some i"
    using assms(1-3) by (rule findIndex_distinct)
  with assms(2,4-6) show ?thesis
    by (simp add: addToCart_def invalidQty_iff resetProductQty_def Let_def
          lineIncremented_update)
qed

lemma quickAdd_increments:
  assumes "distinct (map line_productId (cart st))"
    and "i < length (cart st)" and "line_productId (cart st ! i) = Some ident"
    and "find (\<lambda>p. productId p = ident) (products st) = Some pr"
  shows "lineIncremented (cart st) (cart (handleQuickAddToCart ident st)) i (Num 1)"
proof -
  have "findIndex (\<lambda>c. line_productId c = Some ident) (cart st) = Some i"
    using assms(1-3) by (rule findIndex_distinct)
  with assms(2,4) show ?thesis
    by (simp add: handleQuickAddToCart_def showToast_def Let_def lineIncremented_update)
qed

lemma modalAdd_increments:
  assumes "distinct (map line_productId (cart st))"
    and "i < length (cart st)"
    and "line_productId (cart st ! i) = sel_productId (selectedProduct st)"
    and "js_lt (Num 0) (selectedProductQty st)"
  shows "lineIncremented (cart st) (cart (addDetailsModalToCart st)) i (selectedProductQty st)"
proof -
  have "findIndex (\<lambda>c. line_productId c = sel_productId (selectedProduct st)) (cart st) = Some i"
    using assms(1-3) by (rule findIndex_distinct)
  with assms(2,4) show ?thesis
    by (simp add: addDetailsModalToCart_def invalidQty_iff showToast_def Let_def
          closeDetailsModal_keeps lineIncremented_update)
qed


lemma find_after_map:
  "find (\<lambda>p. productId p = ident) (map (\<lambda>p. if productId p = ident then p\<lparr>qty := v\<rparr> else p) ps) =
   map_option (\<lambda>p. p\<lparr>qty := v\<rparr>) (find (\<lambda>p. productId p = ident) ps)"
  by (induction ps) auto

lemma findIndex_snoc:
  "\<forall>x \<in> set xs. \<not> P x \<Longrightarrow> P y \<Longrightarrow> findIndex P (xs @ [y]) = Some (length xs)"
  by (induction xs) auto

lemma addToCart_new_line:
  assumes "find (\<lambda>p. productId p = ident) (products st) = Some pr"
    and "Some ident \<notin> line_productId ` set (cart st)" and "0 < r"
  shows "addToCart ident (handleQtyChange ident (Num r) st) =
           Inr (resetProductQty ident ((handleQtyChange ident (Num r) st)\<lparr>cart := cart st @
             [\<lparr> line_productId = Some ident, line_name = Some (name pr), line_qty = Num r,
                price = Some (unitPrice pr), total = js_mul (Num r) (unitPrice pr) \<rparr>]\<rparr>))"
proof -
  have "findIndex (\<lambda>c. line_productId c = Some ident) (cart st) = None"
    using assms(2) by (simp add: findIndex_None_notin)
  with assms(1,3) show ?thesis
    by (simp add: addToCart_def handleQtyChange_def find_after_map invalidQty_iff js_lt_Num
          Let_def)
qed

lemma addToCart_last_line:
  assumes "find (\<lambda>p. productId p = ident) (products st) = Some pr"
    and "cart st = xs @ [l]" and "line_productId l = Some ident"
    and "Some ident \<notin> line_productId ` set xs" and "0 < r"
  shows "\<exists>s. addToCart ident (handleQtyChange ident (Num r) st) = Inr s \<and>
           cart s = xs @ [l\<lparr>line_qty := js_add (line_qty l) (Num r),
                            total := js_mul (js_add (line_qty l) (Num r))
                                       (undefToNumber (price l))\<rparr>]"
proof -
  have "findIndex (\<lambda>c. line_productId c = Some ident) (xs @ [l]) = Some (length xs)"
    using assms(3,4) by (intro findIndex_snoc) (auto simp add: image_iff)
  with assms(1,2,5) show ?thesis
    by (simp add: addToCart_def handleQtyChange_def find_after_map invalidQty_iff js_lt_Num
          Let_def resetProductQty_def)
qed

lemma addToCart_two_then_three:
  assumes "find (\<lambda>p. productId p = ident) (products st) = Some pr"
    and "Some ident \<notin> line_productId ` set (cart st)"
  shows "\<exists>s1 s2. addToCart ident (handleQtyChange ident (Num 2) st) = Inr s1 \<and>
           addToCart ident (handleQtyChange ident (Num 3) s1) = Inr s2 \<and>
           cart s2 = cart st @
             [\<lparr> line_productId = Some ident, line_name = Some (name pr), line_qty = Num 5,
                price = Some (unitPrice pr), total = js_mul (Num 5) (unitPrice pr) \<rparr>]"
proof -
  let ?l = "\<lparr> line_productId = Some ident, line_name = Some (name pr), line_qty = Num 2,
                price = Some (unitPrice pr), total = js_mul (Num 2) (unitPrice pr) \<rparr>"
  let ?s1 = "resetProductQty ident ((handleQtyChange ident (Num 2) st)\<lparr>cart := cart st @ [?l]\<rparr>)"
  have first: "addToCart ident (handleQtyChange ident (Num 2) st) = Inr ?s1"
    using addToCart_new_line [OF assms, of 2] by simp
  have found: "find (\<lambda>p. productId p = ident) (products ?s1) = Some (pr\<lparr>qty := None\<rparr>)"
    using assms(1)
    by (simp add: resetProductQty_def handleQtyChange_def find_after_map Let_def del: map_map)
  have c1: "cart ?s1 = cart st @ [?l]"
    by (simp add: resetProductQty_def Let_def)
  from addToCart_last_line [OF found c1 _ assms(2), of 3]
  obtain s2 where "addToCart ident (handleQtyChange ident (Num 3) ?s1) = Inr s2"
    and "cart s2 = cart st @ [?l\<lparr>line_qty := js_add (line_qty ?l) (Num 3),
                            total := js_mul (js_add (line_qty ?l) (Num 3))
                                       (undefToNumber (price ?l))\<rparr>]"
    by auto
  with first js_add_int [of 2 3] show ?thesis
    by simp
qed

lemma modal_first_add:
  assumes "find (\<lambda>p. productId p = ident) (products st) = Some pr"
    and "Some ident \<notin> line_productId ` set (cart st)" and "0 < r" and "r \<le> 10053"
  shows "cart (addDetailsModalToCart (handleDetailsQtyChange (Num r) (handleViewDetails ident st))) =
           cart st @ [\<lparr> line_productId = Some ident, line_name = Some (name pr), line_qty = Num r,
                price = Some (unitPrice pr), total = js_mul (Num r) (unitPrice pr) \<rparr>]"
    and "products (addDetailsModalToCart (handleDetailsQtyChange (Num r) (handleViewDetails ident st))) =
           products st"
proof -
  have none: "findIndex (\<lambda>c. line_productId c = Some ident) (cart st) = None"
    using assms(2) by (simp add: findIndex_None_notin)
  have ident: "productId pr = ident"
    using assms(1) by (auto dest: find_Some_iff [THEN iffD1])
  let ?m = "handleDetailsQtyChange (Num r) (handleViewDetails ident st)"
  have m: "cart ?m = cart st" "products ?m = products st" "selectedProductQty ?m = Num r"
    "sel_productId (selectedProduct ?m) = Some ident"
    "sel_name (selectedProduct ?m) = Some (name pr)"
    "sel_unitPrice (selectedProduct ?m) = Some (unitPrice pr)"
    using assms(1,3,4) ident
    by (simp_all add: handleDetailsQtyChange_def handleViewDetails_def setTimer_def unitsLimit_def
          js_lt_Num js_le_Num Let_def)
  show "cart (addDetailsModalToCart ?m) = cart st @
          [\<lparr> line_productId = Some ident, line_name = Some (name pr), line_qty = Num r,
                price = Some (unitPrice pr), total = js_mul (Num r) (unitPrice pr) \<rparr>]"
    using none assms(3)
    by (simp add: addDetailsModalToCart_def m invalidQty_iff js_lt_Num showToast_def Let_def
          closeDetailsModal_keeps)
  show "products (addDetailsModalToCart ?m) = products st"
    by (simp add: addDetailsModalToCart_def m showToast_def Let_def closeDetailsModal_keeps
        split: option.splits)
qed

lemma modal_second_add:
  assumes "find (\<lambda>p. productId p = ident) (products st) = Some pr"
    and "cart st = xs @ [l]" and "line_productId l = Some ident"
    and "Some ident \<notin> line_productId ` set xs" and "0 < r" and "r \<le> 10053"
  shows "cart (addDetailsModalToCart (handleDetailsQtyChange (Num r) (handleViewDetails ident st))) =
           xs @ [l\<lparr>line_qty := js_add (line_qty l) (Num r),
                     total := js_mul (js_add (line_qty l) (Num r)) (undefToNumber (price l))\<rparr>]"
proof -
  have at: "findIndex (\<lambda>c. line_productId c = Some ident) (xs @ [l]) = Some (length xs)"
    using assms(3,4) by (intro findIndex_snoc) (auto simp add: image_iff)
  have ident: "productId pr = ident"
    using assms(1) by (auto dest: find_Some_iff [THEN iffD1])
  let ?m = "handleDetailsQtyChange (Num r) (handleViewDetails ident st)"
  have m: "cart ?m = xs @ [l]" "selectedProductQty ?m = Num r"
    "sel_productId (selectedProduct ?m) = Some ident"
    using assms(1,2,5,6) ident
    by (simp_all add: handleDetailsQtyChange_def handleViewDetails_def setTimer_def unitsLimit_def
          js_lt_Num js_le_Num Let_def)
  show ?thesis
    using at assms(5)
    by (simp add: addDetailsModalToCart_def m invalidQty_iff js_lt_Num showToast_def Let_def
          closeDetailsModal_keeps)
qed

lemma modal_two_then_three:
  assumes "find (\<lambda>p. productId p = ident) (products st) = Some pr"
    and "Some ident \<notin> line_productId ` set (cart st)"
  shows "cart (addDetailsModalToCart (handleDetailsQtyChange (Num 3) (handleViewDetails ident
           (addDetailsModalToCart (handleDetailsQtyChange (Num 2) (handleViewDetails ident st)))))) =
         cart st @
           [\<lparr> line_productId = Some ident, line_name = Some (name pr), line_qty = Num 5,
              price = Some (unitPrice pr), total = js_mul (Num 5) (unitPrice pr) \<rparr>]"
proof -
  let ?s1 = "addDetailsModalToCart (handleDetailsQtyChange (Num 2) (handleViewDetails ident st))"
  let ?l = "\<lparr> line_productId = Some ident, line_name = Some (name pr), line_qty = Num 2,
                price = Some (unitPrice pr), total = js_mul (Num 2) (unitPrice pr) \<rparr>"
  have c1: "cart ?s1 = cart st @ [?l]" and p1: "products ?s1 = products st"
    using modal_first_add [OF assms, of 2] by simp_all
  have found: "find (\<lambda>p. productId p = ident) (products ?s1) = Some pr"
    using assms(1) p1 by simp
  show ?thesis
    using modal_second_add [OF found c1 _ assms(2), of 3] js_add_int [of 2 3] by simp
qed

text \<open>
  Claim C3. In a cart with at most one line per product id, each of the three add handlers
  leaves at most one line per product id. When the product already has a line (line \<open>i\<close>)
  and the quantity \<open>q\<close> is accepted (\<open>q > 0\<close>), that line is incremented by \<open>q\<close> (by 1 for
  the quick add) and its total is recomputed from the price stored in the line; the price
  of the catalogue is not read. The sum and the product are those of doubles, rounded as
  the code rounds them. Adding 2 and then 3 of a product that has no line yet gives one
  more line, with quantity 5 and total \<open>5 * unitPrice\<close>, with the inline handler and with
  the modal.
\<close>

theorem add_keeps_one_line_per_product:
  assumes "distinct (map line_productId (cart st))"
  shows "(\<forall>st'. addToCart ident st = Inr st' \<longrightarrow> distinct (map line_productId (cart st'))) \<and>
         distinct (map line_productId (cart (handleQuickAddToCart ident st))) \<and>
         distinct (map line_productId (cart (addDetailsModalToCart st))) \<and>
         (\<forall>i pr q. i < length (cart st) \<and> line_productId (cart st ! i) = Some ident \<and>
            find (\<lambda>p. productId p = ident) (products st) = Some pr \<and>
            qty pr = Some q \<and> js_lt (Num 0) q \<longrightarrow>
            (\<exists>st'. addToCart ident st = Inr st' \<and>
               lineIncremented (cart st) (cart st') i q)) \<and>
         (\<forall>i pr. i < length (cart st) \<and> line_productId (cart st ! i) = Some ident \<and>
            find (\<lambda>p. productId p = ident) (products st) = Some pr \<longrightarrow>
            lineIncremented (cart st) (cart (handleQuickAddToCart ident st)) i (Num 1)) \<and>
         (\<forall>i. i < length (cart st) \<and>
            line_productId (cart st ! i) = sel_productId (selectedProduct st) \<and>
            js_lt (Num 0) (selectedProductQty st) \<longrightarrow>
            lineIncremented (cart st) (cart (addDetailsModalToCart st)) i
              (selectedProductQty st)) \<and>
         (\<forall>pr. find (\<lambda>p. productId p = ident) (products st) = Some pr \<and>
            Some ident \<notin> line_productId ` set (cart st) \<longrightarrow>
            (\<exists>s1 s2. addToCart ident (handleQtyChange ident (Num 2) st) = Inr s1 \<and>
               addToCart ident (handleQtyChange ident (Num 3) s1) = Inr s2 \<and>
               cart s2 = cart st @
                 [\<lparr> line_productId = Some ident, line_name = Some (name pr),
                    line_qty = Num 5, price = Some (unitPrice pr),
                    total = js_mul (Num 5) (unitPrice pr) \<rparr>]) \<and>
            cart (addDetailsModalToCart (handleDetailsQtyChange (Num 3) (handleViewDetails ident
              (addDetailsModalToCart (handleDetailsQtyChange (Num 2)
                (handleViewDetails ident st)))))) =
              cart st @
                [\<lparr> line_productId = Some ident, line_name = Some (name pr),
                   line_qty = Num 5, price = Some (unitPrice pr),
                   total = js_mul (Num 5) (unitPrice pr) \<rparr>])"
proof (intro conjI allI impI)
  fix st'
  assume "addToCart ident st = Inr st'"
  with assms show "distinct (map line_productId (cart st'))"
    by (rule addToCart_distinct)
next
  show "distinct (map line_productId (cart (handleQuickAddToCart ident st)))"
    using assms by (rule quickAdd_distinct)
next
  show "distinct (map line_productId (cart (addDetailsModalToCart st)))"
    using assms by (rule modalAdd_distinct)
next
  fix i pr q
  assume "i < length (cart st) \<and> line_productId (cart st ! i) = Some ident \<and>
    find (\<lambda>p. productId p = ident) (products st) = Some pr \<and> qty pr = Some q \<and>
    js_lt (Num 0) q"
  with assms show "\<exists>st'. addToCart ident st = Inr st' \<and>
      lineIncremented (cart st) (cart st') i q"
    by (blast intro: addToCart_increments)
next
  fix i pr
  assume "i < length (cart st) \<and> line_productId (cart st ! i) = Some ident \<and>
    find (\<lambda>p. productId p = ident) (products st) = Some pr"
  with assms show "lineIncremented (cart st) (cart (handleQuickAddToCart ident st)) i (Num 1)"
    by (blast intro: quickAdd_increments)
next
  fix i
  assume "i < length (cart st) \<and>
    line_productId (cart st ! i) = sel_productId (selectedProduct st) \<and>
    js_lt (Num 0) (selectedProductQty st)"
  with assms show "lineIncremented (cart st) (cart (addDetailsModalToCart st)) i
      (selectedProductQty st)"
    by (blast intro: modalAdd_increments)
next
  fix pr
  assume a: "find (\<lambda>p. productId p = ident) (products st) = Some pr \<and>
    Some ident \<notin> line_productId ` set (cart st)"
  then show "\<exists>s1 s2. addToCart ident (handleQtyChange ident (Num 2) st) = Inr s1 \<and>
      addToCart ident (handleQtyChange ident (Num 3) s1) = Inr s2 \<and>
      cart s2 = cart st @
        [\<lparr> line_productId = Some ident, line_name = Some (name pr),
           line_qty = Num 5, price = Some (unitPrice pr),
           total = js_mul (Num 5) (unitPrice pr) \<rparr>]"
    by (intro addToCart_two_then_three) simp_all
  from a show "cart (addDetailsModalToCart (handleDetailsQtyChange (Num 3)
      (handleViewDetails ident (addDetailsModalToCart (handleDetailsQtyChange (Num 2)
        (handleViewDetails ident st)))))) =
      cart st @
        [\<lparr> line_productId = Some ident, line_name = Some (name pr),
           line_qty = Num 5, price = Some (unitPrice pr),
           total = js_mul (Num 5) (unitPrice pr) \<rparr>]"
    by (intro modal_two_then_three) simp_all
qed

theorem add_keeps_one_line_per_product_witness:
  "(\<exists>s1 s2. addToCart ''P1'' (handleQtyChange ''P1'' (Num 2) shop) = Inr s1 \<and>
      addToCart ''P1'' (handleQtyChange ''P1'' (Num 3) s1) = Inr s2 \<and>
      cart s2 = [\<lparr> line_productId = Some ''P1'', line_name = Some ''Widget'',
                   line_qty = Num 5, price = Some (Num 10), total = Num 50 \<rparr>]) \<and>
   length (cart (handleQuickAddToCart ''P1'' repriced)) = 1 \<and>
   line_qty (cart (handleQuickAddToCart ''P1'' repriced) ! 0) = Num 3 \<and>
   price (cart (handleQuickAddToCart ''P1'' repriced) ! 0) = Some (Num 10) \<and>
   total (cart (handleQuickAddToCart ''P1'' repriced) ! 0) = Num 30"
proof -
  have d: "distinct (map line_productId (cart shop))" and c: "cart shop = []"
    by (simp_all add: shop_def initial_def)
  have f: "find (\<lambda>p. productId p = ''P1'') (products shop) = Some widget"
    by (simp add: shop_def widget_def)
  have w: "name widget = ''Widget''" "unitPrice widget = Num 10"
    by (simp_all add: widget_def)
  from add_keeps_one_line_per_product [OF d, of "''P1''"] f c w js_mul_int [of 5 10]
  have first: "\<exists>s1 s2. addToCart ''P1'' (handleQtyChange ''P1'' (Num 2) shop) = Inr s1 \<and>
      addToCart ''P1'' (handleQtyChange ''P1'' (Num 3) s1) = Inr s2 \<and>
      cart s2 = [\<lparr> line_productId = Some ''P1'', line_name = Some ''Widget'',
                   line_qty = Num 5, price = Some (Num 10), total = Num 50 \<rparr>]"
    by simp
  have rc: "cart repriced = [widgetLine]"
    by (simp add: repriced_def shopWithCart_def)
  have rd: "distinct (map line_productId (cart repriced))"
    by (simp add: rc)
  have rf: "find (\<lambda>p. productId p = ''P1'') (products repriced) =
      Some (widget\<lparr>unitPrice := Num 12\<rparr>)"
    by (simp add: repriced_def widget_def)
  have l: "line_productId widgetLine = Some ''P1''" "line_qty widgetLine = Num 2"
    "price widgetLine = Some (Num 10)"
    by (simp_all add: widgetLine_def)
  from add_keeps_one_line_per_product [OF rd, of "''P1''"] rf rc l
  have "lineIncremented [widgetLine] (cart (handleQuickAddToCart ''P1'' repriced)) 0 (Num 1)"
    by simp
  then have "length (cart (handleQuickAddToCart ''P1'' repriced)) = 1 \<and>
      line_qty (cart (handleQuickAddToCart ''P1'' repriced) ! 0) = Num 3 \<and>
      price (cart (handleQuickAddToCart ''P1'' repriced) ! 0) = Some (Num 10) \<and>
      total (cart (handleQuickAddToCart ''P1'' repriced) ! 0) = Num 30"
    using js_add_int [of 2 1] js_mul_int [of 3 10] by (simp add: lineIncremented_def l)
  with first show ?thesis
    by simp
qed

subsection \<open>Pagination\<close>

lemma js_slice_page:
  "0 \<le> start \<Longrightarrow> js_slice xs start (start + int n) = take n (drop (nat start) xs)"
  by (auto simp add: js_slice_def Let_def min_def max_def)

lemma js_slice_length:
  "length (js_slice xs start (start + int n)) \<le> n"
  by (auto simp add: js_slice_def Let_def min_def max_def)

lemma js_slice_sublist: "sublist (js_slice xs start fin) xs"
  unfolding js_slice_def Let_def
  by (meson sublist_order.order.trans sublist_take sublist_drop)

lemma concat_pages:
  "concat (map (\<lambda>k. take n (drop (k * n) xs)) [0..<m]) = take (m * n) xs"
proof (induction m)
  case 0
  show ?case by simp
next
  case (Suc m)
  have "take (Suc m * n) xs = take (m * n + n) xs"
    by (simp add: add.commute)
  also have "\<dots> = take (m * n) xs @ take n (drop (m * n) xs)"
    by (rule take_add)
  finally show ?case
    using Suc.IH by simp
qed

lemma upto_as_upt: "[1..int m] = map (\<lambda>k. int k + 1) [0..<m]"
  by (induction m) (simp_all add: upto_rec2)

lemma ceil_div_bounds:
  assumes "0 < (n::nat)"
  shows "len \<le> ((len + n - 1) div n) * n"
    and "((len + n - 1) div n) * n < len + n"
proof -
  let ?a = "len + n - 1"
  have eq: "?a div n * n + ?a mod n = ?a"
    by simp
  have "?a mod n < n"
    using assms by simp
  with eq assms show "len \<le> ?a div n * n" by linarith
  from eq assms show "?a div n * n < len + n" by linarith
qed

lemma ceil_div_ceiling:
  assumes "0 < (n::nat)"
  shows "\<lceil>(of_nat len :: rat) / of_nat n\<rceil> = int ((len + n - 1) div n)"
proof (rule ceiling_unique)
  let ?q = "(len + n - 1) div n"
  have npos: "(0::rat) < of_nat n"
    using assms by simp
  have "of_nat (?q * n) < (of_nat (len + n) :: rat)"
    using ceil_div_bounds(2) [OF assms, of len] by (simp only: of_nat_less_iff)
  then have "(of_nat ?q - 1) * of_nat n < (of_nat len :: rat)"
    by (simp add: algebra_simps)
  then show "of_int (int ?q) - 1 < (of_nat len :: rat) / of_nat n"
    using npos by (simp add: pos_less_divide_eq)
  have "(of_nat len :: rat) \<le> of_nat (?q * n)"
    using ceil_div_bounds(1) [OF assms, of len] by (simp only: of_nat_le_iff)
  then show "(of_nat len :: rat) / of_nat n \<le> of_int (int ?q)"
    using npos by (simp add: pos_divide_le_eq)
qed

lemma totalPages_covers:
  assumes "0 < productsPerPage st"
  shows "length (filteredBySearchAndCategory st) \<le> totalPages st * productsPerPage st"
proof -
  let ?F = "filteredBySearchAndCategory st" and ?n = "productsPerPage st"
  have "length ?F \<le> ((length ?F + ?n - 1) div ?n) * ?n"
    by (rule ceil_div_bounds(1) [OF assms])
  also have "\<dots> \<le> totalPages st * ?n"
    by (simp add: totalPages_def Let_def)
  finally show ?thesis .
qed

lemma page_is_take_drop:
  assumes "1 \<le> k"
  shows "paginatedProducts (st\<lparr>currentPage := k\<rparr>) =
         take (productsPerPage st)
           (drop (nat (k - 1) * productsPerPage st) (filteredBySearchAndCategory st))"
proof -
  have "0 \<le> (k - 1) * int (productsPerPage st)"
    using assms by simp
  moreover have "nat ((k - 1) * int (productsPerPage st)) = nat (k - 1) * productsPerPage st"
    using assms by (simp add: nat_mult_distrib)
  ultimately show ?thesis
    by (simp add: paginatedProducts_def Let_def js_slice_page filtered_currentPage)
qed

lemma pages_concat:
  assumes "0 < productsPerPage st"
  shows "concat (map (\<lambda>k. paginatedProducts (st\<lparr>currentPage := k\<rparr>)) [1..int (totalPages st)]) =
         filteredBySearchAndCategory st"
proof -
  let ?F = "filteredBySearchAndCategory st" and ?n = "productsPerPage st"
  have "concat (map (\<lambda>k. paginatedProducts (st\<lparr>currentPage := k\<rparr>)) [1..int (totalPages st)]) =
        concat (map (\<lambda>k. take ?n (drop (k * ?n) ?F)) [0..<totalPages st])"
    by (simp add: upto_as_upt comp_def page_is_take_drop)
  also have "\<dots> = take (totalPages st * ?n) ?F"
    by (rule concat_pages)
  also have "\<dots> = ?F"
    using totalPages_covers [OF assms] by simp
  finally show ?thesis .
qed

text \<open>
  Claim C5. For every state (every product list, search term and category) and every
  positive page size: the page shown for a current page \<open>k \<ge> 1\<close> is the run of
  \<open>productsPerPage\<close> elements of the filtered list that starts at offset
  \<open>(k - 1) * productsPerPage\<close>; every page is a contiguous sublist of the filtered list
  and has at most \<open>productsPerPage\<close> elements; the pages 1 to \<open>totalPages\<close>, concatenated
  in order, are the filtered list; and \<open>totalPages\<close> is the quotient of the filtered count
  by the page size, rounded up, and at least 1 (1 for an empty filtered list).
\<close>

theorem pagination_partitions_filtered:
  assumes "0 < productsPerPage st"
  shows "(\<forall>k. 1 \<le> k \<longrightarrow>
            paginatedProducts (st\<lparr>currentPage := k\<rparr>) =
              take (productsPerPage st)
                (drop (nat (k - 1) * productsPerPage st) (filteredBySearchAndCategory st))) \<and>
         (\<forall>k. sublist (paginatedProducts (st\<lparr>currentPage := k\<rparr>))
                 (filteredBySearchAndCategory st) \<and>
               length (paginatedProducts (st\<lparr>currentPage := k\<rparr>)) \<le> productsPerPage st) \<and>
         concat (map (\<lambda>k. paginatedProducts (st\<lparr>currentPage := k\<rparr>))
                   [1..int (totalPages st)]) = filteredBySearchAndCategory st \<and>
         int (totalPages st) =
           max 1 \<lceil>(of_nat (length (filteredBySearchAndCategory st)) :: rat) /
                    of_nat (productsPerPage st)\<rceil> \<and>
         1 \<le> totalPages st \<and>
         (filteredBySearchAndCategory st = [] \<longrightarrow> totalPages st = 1)"
proof -
  have a: "\<forall>k. 1 \<le> k \<longrightarrow>
            paginatedProducts (st\<lparr>currentPage := k\<rparr>) =
              take (productsPerPage st)
                (drop (nat (k - 1) * productsPerPage st) (filteredBySearchAndCategory st))"
    by (simp add: page_is_take_drop)
  have b: "\<forall>k. sublist (paginatedProducts (st\<lparr>currentPage := k\<rparr>))
                 (filteredBySearchAndCategory st) \<and>
               length (paginatedProducts (st\<lparr>currentPage := k\<rparr>)) \<le> productsPerPage st"
    by (simp add: paginatedProducts_def Let_def js_slice_sublist js_slice_length
          filtered_currentPage)
  have c: "int (totalPages st) =
           max 1 \<lceil>(of_nat (length (filteredBySearchAndCategory st)) :: rat) /
                    of_nat (productsPerPage st)\<rceil>"
    by (simp add: ceil_div_ceiling [OF assms] totalPages_def Let_def)
  have d: "1 \<le> totalPages st"
    by (simp add: totalPages_def Let_def)
  have e: "filteredBySearchAndCategory st = [] \<longrightarrow> totalPages st = 1"
    using assms by (simp add: totalPages_def Let_def)
  from a b c d e pages_concat [OF assms] show ?thesis
    by blast
qed

theorem pagination_partitions_filtered_witness:
  "paginatedProducts (twoPages\<lparr>currentPage := 2\<rparr>) = [gadget] \<and>
   concat (map (\<lambda>k. paginatedProducts (twoPages\<lparr>currentPage := k\<rparr>)) [1..2]) =
     [widget, gadget] \<and>
   totalPages twoPages = 2"
proof -
  have n: "0 < productsPerPage twoPages" "productsPerPage twoPages = 1"
    by (simp_all add: twoPages_def)
  have F: "filteredBySearchAndCategory twoPages = [widget, gadget]"
    by (simp add: filteredBySearchAndCategory_def twoPages_def shop_def initial_def)
  note parts = pagination_partitions_filtered [OF n(1)]
  have page: "paginatedProducts (twoPages\<lparr>currentPage := 2\<rparr>) =
        take (productsPerPage twoPages)
          (drop (nat (2 - 1) * productsPerPage twoPages) (filteredBySearchAndCategory twoPages))"
    using parts [THEN conjunct1, THEN spec, of 2] by simp
  have cat: "concat (map (\<lambda>k. paginatedProducts (twoPages\<lparr>currentPage := k\<rparr>))
        [1..int (totalPages twoPages)]) = filteredBySearchAndCategory twoPages"
    using parts [THEN conjunct2, THEN conjunct2, THEN conjunct1] .
  have tp: "int (totalPages twoPages) =
        max 1 \<lceil>(of_nat (length (filteredBySearchAndCategory twoPages)) :: rat) /
                 of_nat (productsPerPage twoPages)\<rceil>"
    using parts [THEN conjunct2, THEN conjunct2, THEN conjunct2, THEN conjunct1] .
  from tp have t: "totalPages twoPages = 2"
    by (simp add: F n(2))
  from page cat t show ?thesis
    by (simp add: F n(2))
qed

subsection \<open>Page navigation\<close>

lemma pageNumbers_set: "fst ` set (pageNumbers st) = {1..int (totalPages st)}"
  by (force simp add: pageNumbers_def)

text \<open>
  Claim C6, as stated, fails for the direct page selection: \<open>handlePageClick\<close> stores the
  number it is given, here 99 where there is one page.
\<close>

theorem handlePageClick_unchecked:
  "currentPage (initial ''R1'') = 1 \<and> totalPages (initial ''R1'') = 1 \<and>
   currentPage (handlePageClick 99 (initial ''R1'')) = 99 \<and>
   totalPages (handlePageClick 99 (initial ''R1'')) = 1"
  by (simp add: handlePageClick_def totalPages_def filteredBySearchAndCategory_def
        initial_def Let_def)

text \<open>
  Claim C6, amended. In a state whose current page is in \<open>[1, totalPages]\<close>,
  \<open>handlePreviousPage\<close> on page 1 and \<open>handleNextPage\<close> on the last page change nothing, and
  both handlers leave the current page in \<open>[1, totalPages]\<close>. \<open>handlePageClick\<close> stores the
  page it is given without a check; the current page stays in \<open>[1, totalPages]\<close> when that
  page is the number of one of the page buttons (\<open>pageNumbers\<close>).
\<close>

theorem page_navigation_in_range:
  assumes "1 \<le> currentPage st" and "currentPage st \<le> int (totalPages st)"
  shows "(currentPage st = 1 \<longrightarrow> handlePreviousPage st = st) \<and>
         (currentPage st = int (totalPages st) \<longrightarrow> handleNextPage st = st) \<and>
         1 \<le> currentPage (handlePreviousPage st) \<and>
         currentPage (handlePreviousPage st) \<le> int (totalPages (handlePreviousPage st)) \<and>
         1 \<le> currentPage (handleNextPage st) \<and>
         currentPage (handleNextPage st) \<le> int (totalPages (handleNextPage st)) \<and>
         (\<forall>p. currentPage (handlePageClick p st) = p) \<and>
         (\<forall>p \<in> fst ` set (pageNumbers st).
            1 \<le> currentPage (handlePageClick p st) \<and>
            currentPage (handlePageClick p st) \<le> int (totalPages (handlePageClick p st)))"
  using assms
  by (auto simp add: handlePreviousPage_def handleNextPage_def handlePageClick_def
        canGoPrevious_def canGoNext_def pageNumbers_set totalPages_currentPage)

theorem page_navigation_in_range_witness:
  "handlePreviousPage twoPages = twoPages \<and>
   1 \<le> currentPage (handleNextPage twoPages) \<and>
   currentPage (handleNextPage twoPages) \<le> 2 \<and>
   currentPage (handlePageClick 2 twoPages) = 2"
proof -
  have t: "totalPages twoPages = 2"
    by (simp add: totalPages_def filteredBySearchAndCategory_def twoPages_def shop_def
          initial_def Let_def)
  have c: "currentPage twoPages = 1"
    by (simp add: twoPages_def shop_def initial_def)
  have n: "totalPages (handleNextPage twoPages) = 2"
    using t by (simp add: handleNextPage_def totalPages_currentPage)
  have "1 \<le> currentPage twoPages" and "currentPage twoPages \<le> int (totalPages twoPages)"
    using t c by simp_all
  from page_navigation_in_range [OF this] c n show ?thesis
    by simp
qed

subsection \<open>The image gallery\<close>

lemma gallery_startImageScroll:
  "selectedProduct (startImageScroll st) = selectedProduct st"
  "selectedImageIndex (startImageScroll st) = selectedImageIndex st"
  by (simp_all add: startImageScroll_def setTimer_def Let_def stopImageScroll_keeps
        split: prod.splits)

lemma indexInRange_cong:
  "selectedProduct s = selectedProduct st \<Longrightarrow> selectedImageIndex s = selectedImageIndex st \<Longrightarrow>
     indexInRange s = indexInRange st"
  by (simp add: indexInRange_def split: option.splits)

lemma indexInRange_closed: "indexInRange (closeDetailsModal st)"
  by (simp add: indexInRange_def closeDetailsModal_def emptyObject_def stopImageScroll_keeps)

lemma indexInRange_open: "indexInRange st \<Longrightarrow> indexInRange (handleViewDetails ident st)"
  by (auto simp add: indexInRange_def handleViewDetails_def setTimer_def Let_def
      split: option.splits)

lemma js_rem_mod: "0 \<le> a \<Longrightarrow> 0 < b \<Longrightarrow> js_rem a b = a mod b"
  by (simp add: js_rem_def)

lemma nextImage_advances:
  assumes "indexInRange st" and "sel_imageUrls (selectedProduct st) = Some urls"
    and "1 < length urls"
  shows "selectedImageIndex (nextImage st) = (selectedImageIndex st + 1) mod int (length urls)"
    and "selectedProduct (nextImage st) = selectedProduct st"
proof -
  have "0 \<le> selectedImageIndex st + 1" and "0 < int (length urls)"
    using assms by (auto simp add: indexInRange_def)
  then have "js_rem (selectedImageIndex st + 1) (int (length urls)) =
      (selectedImageIndex st + 1) mod int (length urls)"
    by (rule js_rem_mod)
  with assms(2,3)
  show "selectedImageIndex (nextImage st) = (selectedImageIndex st + 1) mod int (length urls)"
    by (simp add: nextImage_def)
  from assms(2) show "selectedProduct (nextImage st) = selectedProduct st"
    by (simp add: nextImage_def)
qed

lemma indexInRange_nextImage: "indexInRange st \<Longrightarrow> indexInRange (nextImage st)"
proof (cases "sel_imageUrls (selectedProduct st)")
  case None
  then show "indexInRange (nextImage st)"
    by (simp add: indexInRange_def nextImage_def)
next
  case (Some urls)
  assume inv: "indexInRange st"
  show "indexInRange (nextImage st)"
  proof (cases "1 < length urls")
    case True
    from True have "0 < int (length urls)" by linarith
    then have "0 \<le> (selectedImageIndex st + 1) mod int (length urls)"
      and "(selectedImageIndex st + 1) mod int (length urls) < int (length urls)"
      by (rule pos_mod_sign, rule pos_mod_bound)
    with nextImage_advances [OF inv Some True] Some show ?thesis
      by (auto simp add: indexInRange_def)
  next
    case False
    with Some inv show ?thesis
      by (simp add: nextImage_def)
  qed
qed

lemma thumbnail_indices:
  "sel_imageUrls (selectedProduct st) = Some urls \<Longrightarrow>
     (fst \<circ> snd) ` set (productImages st) = {0..<int (length urls)}"
proof -
  assume u: "sel_imageUrls (selectedProduct st) = Some urls"
  have "map (fst \<circ> snd) (productImages st) = map (\<lambda>x. int (fst x)) (enumerate 0 urls)"
    using u by (simp add: productImages_def comp_def case_prod_beta)
  also have "\<dots> = map (int \<circ> fst) (enumerate 0 urls)"
    by (simp only: comp_def)
  also have "\<dots> = map int (map fst (enumerate 0 urls))"
    by (simp only: map_map)
  also have "\<dots> = map int [0..<length urls]"
    by (simp only: map_fst_enumerate add_0)
  finally have "set (map (fst \<circ> snd) (productImages st)) = int ` {0..<length urls}"
    by simp
  also have "\<dots> = {0..<int (length urls)}"
    by (simp add: image_int_atLeastLessThan)
  finally show ?thesis by simp
qed

lemma indexInRange_select:
  assumes "i \<in> (fst \<circ> snd) ` set (productImages st)"
  shows "indexInRange (selectProductImage i st)"
proof (cases "sel_imageUrls (selectedProduct st)")
  case None
  then show ?thesis
    by (simp add: indexInRange_def selectProductImage_def setTimer_def Let_def
          stopImageScroll_keeps)
next
  case (Some urls)
  with assms thumbnail_indices [OF Some] show ?thesis
    by (simp add: indexInRange_def selectProductImage_def setTimer_def Let_def
          stopImageScroll_keeps)
qed

lemma no_auto_advance:
  assumes "\<not> hasSeveralImages st"
  shows "startImageScroll st = st" and "nextImage st = st"
  using assms by (auto simp add: startImageScroll_def nextImage_def hasSeveralImages_def
      split: option.splits)

lemma three_images:
  assumes "sel_imageUrls (selectedProduct st) = Some urls" and "length urls = 3"
    and "selectedImageIndex st = 0"
  shows "selectedImageIndex (nextImage st) = 1"
    and "selectedImageIndex (nextImage (nextImage st)) = 2"
    and "selectedImageIndex (nextImage (nextImage (nextImage st))) = 0"
  using assms by (simp_all add: nextImage_def js_rem_def)

lemma indexInRange_modalAdd: "indexInRange st \<Longrightarrow> indexInRange (addDetailsModalToCart st)"
proof (cases "invalidQty (selectedProductQty st)")
  case True
  assume "indexInRange st"
  moreover have "indexInRange (addDetailsModalToCart st) = indexInRange st"
    using True by (intro indexInRange_cong) (simp_all add: addDetailsModalToCart_def showToast_def)
  ultimately show ?thesis by simp
next
  case False
  then show ?thesis
    by (simp add: addDetailsModalToCart_def Let_def indexInRange_closed)
qed

lemma indexInRange_frame:
  "indexInRange (startImageScroll st) = indexInRange st"
  "indexInRange (stopImageScroll st) = indexInRange st"
  "indexInRange (handleImageGalleryMouseEnter st) = indexInRange st"
  "indexInRange (handleImageGalleryMouseLeave st) = indexInRange st"
  "indexInRange (resumeImageScroll st) = indexInRange st"
  "indexInRange (incrementQty st) = indexInRange st"
  "indexInRange (decrementQty st) = indexInRange st"
  "indexInRange (handleDetailsQtyChange q st) = indexInRange st"
  by (rule indexInRange_cong;
      simp add: handleImageGalleryMouseEnter_def handleImageGalleryMouseLeave_def
        resumeImageScroll_def incrementQty_def decrementQty_def handleDetailsQtyChange_def
        stopImageScroll_keeps gallery_startImageScroll)+

text \<open>
  Claim C8, as stated, fails for the selection of an image: \<open>selectProductImage\<close> stores
  the index it is given, here 7 for a product with three images.
\<close>

theorem selectProductImage_unchecked:
  "sel_imageUrls (selectedProduct galleryOpen) = Some [''a.png'', ''b.png'', ''c.png''] \<and>
   indexInRange galleryOpen \<and>
   selectedImageIndex (selectProductImage 7 galleryOpen) = 7 \<and>
   \<not> indexInRange (selectProductImage 7 galleryOpen)"
  by (simp add: galleryOpen_def shop_def initial_def handleViewDetails_def widget_def
        gadget_def setTimer_def indexInRange_def selectProductImage_def stopImageScroll_def
        Let_def)

text \<open>
  Claim C8, amended. The selected image index stays a position of the image list under
  every handler of the modal, where \<open>selectProductImage\<close> is given the index of one of the
  thumbnails (\<open>productImages\<close>); the handler itself stores any index. With more than one
  image \<open>nextImage\<close> moves the index to its successor modulo the number of images: from 0
  with three images to 1, 2 and 0 again. With no image list or at most one image,
  \<open>startImageScroll\<close> and \<open>nextImage\<close> change nothing, so no interval is started and the
  index does not move.
\<close>

theorem gallery_index_in_range:
  assumes "indexInRange st"
  shows "indexInRange (handleViewDetails ident st) \<and>
         indexInRange (closeDetailsModal st) \<and>
         indexInRange (startImageScroll st) \<and>
         indexInRange (stopImageScroll st) \<and>
         indexInRange (nextImage st) \<and>
         indexInRange (handleImageGalleryMouseEnter st) \<and>
         indexInRange (handleImageGalleryMouseLeave st) \<and>
         indexInRange (resumeImageScroll st) \<and>
         indexInRange (incrementQty st) \<and>
         indexInRange (decrementQty st) \<and>
         indexInRange (handleDetailsQtyChange q st) \<and>
         indexInRange (addDetailsModalToCart st) \<and>
         (\<forall>i \<in> (fst \<circ> snd) ` set (productImages st). indexInRange (selectProductImage i st)) \<and>
         (\<forall>i. selectedImageIndex (selectProductImage i st) = i) \<and>
         (\<forall>urls. sel_imageUrls (selectedProduct st) = Some urls \<and> 1 < length urls \<longrightarrow>
            selectedImageIndex (nextImage st) =
              (selectedImageIndex st + 1) mod int (length urls)) \<and>
         (\<forall>urls. sel_imageUrls (selectedProduct st) = Some urls \<and> length urls = 3 \<and>
            selectedImageIndex st = 0 \<longrightarrow>
            selectedImageIndex (nextImage st) = 1 \<and>
            selectedImageIndex (nextImage (nextImage st)) = 2 \<and>
            selectedImageIndex (nextImage (nextImage (nextImage st))) = 0) \<and>
         (sel_imageUrls (selectedProduct st) = None \<or>
          (\<exists>urls. sel_imageUrls (selectedProduct st) = Some urls \<and> length urls \<le> 1) \<longrightarrow>
            startImageScroll st = st \<and> nextImage st = st)"
proof -
  have frame: "indexInRange (handleViewDetails ident st)" "indexInRange (closeDetailsModal st)"
    "indexInRange (nextImage st)" "indexInRange (addDetailsModalToCart st)"
    using assms
    by (simp_all add: indexInRange_open indexInRange_closed indexInRange_nextImage
          indexInRange_modalAdd)
  have sel: "\<forall>i \<in> (fst \<circ> snd) ` set (productImages st). indexInRange (selectProductImage i st)"
    by (blast intro: indexInRange_select)
  have stored: "\<forall>i. selectedImageIndex (selectProductImage i st) = i"
    by (simp add: selectProductImage_def setTimer_def Let_def stopImageScroll_keeps)
  have adv: "\<forall>urls. sel_imageUrls (selectedProduct st) = Some urls \<and> 1 < length urls \<longrightarrow>
      selectedImageIndex (nextImage st) = (selectedImageIndex st + 1) mod int (length urls)"
    using assms by (blast intro: nextImage_advances(1))
  have three: "\<forall>urls. sel_imageUrls (selectedProduct st) = Some urls \<and> length urls = 3 \<and>
      selectedImageIndex st = 0 \<longrightarrow>
      selectedImageIndex (nextImage st) = 1 \<and>
      selectedImageIndex (nextImage (nextImage st)) = 2 \<and>
      selectedImageIndex (nextImage (nextImage (nextImage st))) = 0"
    by (blast intro: three_images)
  have still: "sel_imageUrls (selectedProduct st) = None \<or>
      (\<exists>urls. sel_imageUrls (selectedProduct st) = Some urls \<and> length urls \<le> 1) \<longrightarrow>
      startImageScroll st = st \<and> nextImage st = st"
  proof
    assume "sel_imageUrls (selectedProduct st) = None \<or>
      (\<exists>urls. sel_imageUrls (selectedProduct st) = Some urls \<and> length urls \<le> 1)"
    then have "\<not> hasSeveralImages st"
      by (auto simp add: hasSeveralImages_def)
    then show "startImageScroll st = st \<and> nextImage st = st"
      by (simp add: no_auto_advance)
  qed
  from assms frame sel stored adv three still show ?thesis
    by (simp only: indexInRange_frame simp_thms)
qed

theorem gallery_index_in_range_witness:
  "selectedImageIndex (nextImage galleryOpen) = 1 \<and>
   selectedImageIndex (nextImage (nextImage galleryOpen)) = 2 \<and>
   selectedImageIndex (nextImage (nextImage (nextImage galleryOpen))) = 0 \<and>
   indexInRange (selectProductImage 2 galleryOpen) \<and>
   startImageScroll (handleViewDetails ''P2'' shop) = handleViewDetails ''P2'' shop"
proof -
  let ?single = "handleViewDetails ''P2'' shop"
  have g: "sel_imageUrls (selectedProduct galleryOpen) = Some [''a.png'', ''b.png'', ''c.png'']"
    "selectedImageIndex galleryOpen = 0"
    by (simp_all add: galleryOpen_def shop_def handleViewDetails_def widget_def setTimer_def
          Let_def)
  have s: "sel_imageUrls (selectedProduct ?single) = Some [''g.png'']"
    "selectedImageIndex ?single = 0"
    by (simp_all add: shop_def handleViewDetails_def widget_def gadget_def setTimer_def Let_def)
  have inv: "indexInRange galleryOpen" "indexInRange ?single"
    by (simp_all add: indexInRange_def g s)
  have thumb: "2 \<in> (fst \<circ> snd) ` set (productImages galleryOpen)"
    by (simp only: thumbnail_indices [OF g(1)]) simp
  from gallery_index_in_range [OF inv(1), of "''P1''" "Num 1"] g thumb
  have first: "selectedImageIndex (nextImage galleryOpen) = 1 \<and>
      selectedImageIndex (nextImage (nextImage galleryOpen)) = 2 \<and>
      selectedImageIndex (nextImage (nextImage (nextImage galleryOpen))) = 0 \<and>
      indexInRange (selectProductImage 2 galleryOpen)"
    by auto
  from gallery_index_in_range [OF inv(2), of "''P2''" "Num 1"] s
  have "startImageScroll ?single = ?single"
    by simp
  with first show ?thesis by simp
qed

end
